theory Spec2Isabelle
  imports Complex_Main
begin

section \<open>JavaScript values\<close>

text \<open>
  The validators and the error mapper receive untyped request bodies, so their inputs are
  JavaScript values. A finite number is the rational it denotes (every finite double is a
  rational; the comparisons, the multiplication by 4 of a value in \<open>[0, 14]\<close>,
  \<open>Math.round\<close> and \<open>Number.isInteger\<close> are exact on doubles). A string is the list
  of its code units, each below 256. A \<open>Date\<close> is its time value in milliseconds since
  the epoch. An object is the list of its properties in creation order.
\<close>

datatype jsnum = NaN | PosInf | NegInf | Fin rat

datatype jsval =
    JUndefined
  | JNull
  | JBool bool
  | JNum jsnum
  | JStr string
  | JDate int
  | JArr "jsval list"
  | JObj "(string \<times> jsval) list"

type_synonym jsobject = "(string \<times> jsval) list"

text \<open>What a validator returns: \<open>{ok: true, data}\<close>, \<open>{ok: false, error}\<close>, or a thrown
  \<open>TypeError\<close> (a method call such as \<open>.trim()\<close> on a value that has no such method).\<close>

datatype 'a outcome = Ok 'a | Err string | TypeError

text \<open>\<open>!v\<close> is true exactly on the falsy values.\<close>

fun falsy :: "jsval \<Rightarrow> bool" where
  "falsy JUndefined = True"
| "falsy JNull = True"
| "falsy (JBool b) = (\<not> b)"
| "falsy (JNum n) = (n = NaN \<or> n = Fin 0)"
| "falsy (JStr s) = (s = [])"
| "falsy (JDate t) = False"
| "falsy (JArr xs) = False"
| "falsy (JObj ps) = False"

text \<open>Reading a property of an object that was built by this code (absent reads as
  \<open>undefined\<close>).\<close>

definition getProp :: "jsobject \<Rightarrow> string \<Rightarrow> jsval" where
  "getProp obj k = (case map_of obj k of None \<Rightarrow> JUndefined | Some v \<Rightarrow> v)"

definition hasProp :: "jsobject \<Rightarrow> string \<Rightarrow> bool" where
  "hasProp obj k = (map_of obj k \<noteq> None)"

section \<open>Strings\<close>

text \<open>\<open>String.prototype.trim\<close> strips white space and line terminators from both ends;
  among the code units below 256 these are TAB, LF, VT, FF, CR, SP and NBSP.\<close>

definition isWhiteSpace :: "char \<Rightarrow> bool" where
  "isWhiteSpace c =
     (c = CHR 0x09 \<or> c = CHR 0x0A \<or> c = CHR 0x0B \<or> c = CHR 0x0C \<or> c = CHR 0x0D
      \<or> c = CHR 0x20 \<or> c = CHR 0xA0)"

definition trim :: "string \<Rightarrow> string" where
  "trim s = rev (dropWhile isWhiteSpace (rev (dropWhile isWhiteSpace s)))"

text \<open>The regular expressions of the source are all anchored and of fixed length: a list
  of character classes, one per position.\<close>

datatype cclass = Digit | Hex | Lit char | OneOf string

fun inClass :: "cclass \<Rightarrow> char \<Rightarrow> bool" where
  "inClass Digit c = (c \<in> set ''0123456789'')"
| "inClass Hex c = (c \<in> set ''0123456789abcdefABCDEF'')"
| "inClass (Lit a) c = (c = a)"
| "inClass (OneOf s) c = (c \<in> set s)"

fun matchesFixed :: "cclass list \<Rightarrow> string \<Rightarrow> bool" where
  "matchesFixed [] [] = True"
| "matchesFixed (p # ps) (c # cs) = (inClass p c \<and> matchesFixed ps cs)"
| "matchesFixed [] (c # cs) = False"
| "matchesFixed (p # ps) [] = False"

text \<open>\<open>/^\d{4}-\d{2}-\d{2}$/\<close>\<close>

definition dateRegex :: "cclass list" where
  "dateRegex = [Digit, Digit, Digit, Digit, Lit CHR ''-'', Digit, Digit, Lit CHR ''-'',
     Digit, Digit]"

text \<open>\<open>/^#[0-9A-Fa-f]{6}$/\<close>\<close>

definition colorRegex :: "cclass list" where
  "colorRegex = [Lit CHR ''#'', Hex, Hex, Hex, Hex, Hex, Hex]"

text \<open>\<open>/^[0-9a-f]{8}-[0-9a-f]{4}-4[0-9a-f]{3}-[89ab][0-9a-f]{3}-[0-9a-f]{12}$/i\<close>\<close>

definition uuidRegex :: "cclass list" where
  "uuidRegex =
     [Hex, Hex, Hex, Hex, Hex, Hex, Hex, Hex, Lit CHR ''-'',
      Hex, Hex, Hex, Hex, Lit CHR ''-'',
      Lit CHR ''4'', Hex, Hex, Hex, Lit CHR ''-'',
      OneOf ''89abAB'', Hex, Hex, Hex, Lit CHR ''-'',
      Hex, Hex, Hex, Hex, Hex, Hex, Hex, Hex, Hex, Hex, Hex, Hex]"

definition isValidUUID :: "string \<Rightarrow> bool" where
  "isValidUUID str = matchesFixed uuidRegex str"

section \<open>The \<open>Date\<close> built-in\<close>

text \<open>Time values are integers (milliseconds since 1970-01-01T00:00:00Z). The functions
  below are the abstract operations of the language standard, on day numbers.\<close>

definition msPerDay :: int where
  "msPerDay = 86400000"

definition Day :: "int \<Rightarrow> int" where
  "Day t = t div msPerDay"

definition TimeWithinDay :: "int \<Rightarrow> int" where
  "TimeWithinDay t = t mod msPerDay"

definition InLeapYear :: "int \<Rightarrow> bool" where
  "InLeapYear y = (y mod 4 = 0 \<and> (y mod 100 \<noteq> 0 \<or> y mod 400 = 0))"

definition DayFromYear :: "int \<Rightarrow> int" where
  "DayFromYear y =
     365 * (y - 1970) + (y - 1969) div 4 - (y - 1901) div 100 + (y - 1601) div 400"

text \<open>The year of a day number: the largest \<open>y\<close> with \<open>DayFromYear y \<le> d\<close>. The mean
  year has 146097/400 days, so the estimate is off by at most one.\<close>

definition YearFromDay :: "int \<Rightarrow> int" where
  "YearFromDay d =
     (let y = 1970 + (400 * d) div 146097
      in if d < DayFromYear y then y - 1
         else if DayFromYear (y + 1) \<le> d then y + 1
         else y)"

text \<open>Days before the start of month \<open>m\<close> (0 = January) in year \<open>y\<close>.\<close>

definition daysBeforeMonth :: "int \<Rightarrow> int \<Rightarrow> int" where
  "daysBeforeMonth y m =
     (let l = (if InLeapYear y then 1 else 0) in
      if m = 0 then 0 else if m = 1 then 31 else if m = 2 then 59 + l
      else if m = 3 then 90 + l else if m = 4 then 120 + l else if m = 5 then 151 + l
      else if m = 6 then 181 + l else if m = 7 then 212 + l else if m = 8 then 243 + l
      else if m = 9 then 273 + l else if m = 10 then 304 + l else 334 + l)"

definition DayWithinYear :: "int \<Rightarrow> int" where
  "DayWithinYear d = d - DayFromYear (YearFromDay d)"

definition MonthFromDay :: "int \<Rightarrow> int" where
  "MonthFromDay d =
     (let y = YearFromDay d; w = DayWithinYear d in
      if w < daysBeforeMonth y 1 then 0 else if w < daysBeforeMonth y 2 then 1
      else if w < daysBeforeMonth y 3 then 2 else if w < daysBeforeMonth y 4 then 3
      else if w < daysBeforeMonth y 5 then 4 else if w < daysBeforeMonth y 6 then 5
      else if w < daysBeforeMonth y 7 then 6 else if w < daysBeforeMonth y 8 then 7
      else if w < daysBeforeMonth y 9 then 8 else if w < daysBeforeMonth y 10 then 9
      else if w < daysBeforeMonth y 11 then 10 else 11)"

definition DateFromDay :: "int \<Rightarrow> int" where
  "DateFromDay d = DayWithinYear d - daysBeforeMonth (YearFromDay d) (MonthFromDay d) + 1"

text \<open>\<open>MakeDay(year, month, date)\<close>: months outside 0..11 carry into the year, the date
  is added linearly (so day 30 of February is 2 March).\<close>

definition MakeDay :: "int \<Rightarrow> int \<Rightarrow> int \<Rightarrow> int" where
  "MakeDay y m dt =
     (let ym = y + m div 12; mn = m mod 12
      in DayFromYear ym + daysBeforeMonth ym mn + dt - 1)"

definition MakeDate :: "int \<Rightarrow> int \<Rightarrow> int" where
  "MakeDate day time = day * msPerDay + time"

text \<open>\<open>WeekDay\<close>: 0 = Sunday, ..., 6 = Saturday; day 0 was a Thursday.\<close>

definition WeekDay :: "int \<Rightarrow> int" where
  "WeekDay t = (Day t + 4) mod 7"

text \<open>A time zone gives the offset from UTC in milliseconds: at a UTC instant
  (\<open>utcOffset\<close>) and at a local time value (\<open>localOffset\<close>). The process's own zone
  is a parameter of every function that reads local date fields.\<close>

record zone =
  utcOffset :: "int \<Rightarrow> int"
  localOffset :: "int \<Rightarrow> int"

definition LocalTime :: "zone \<Rightarrow> int \<Rightarrow> int" where
  "LocalTime z t = t + utcOffset z t"

definition UTC :: "zone \<Rightarrow> int \<Rightarrow> int" where
  "UTC z t = t - localOffset z t"

definition fixedZone :: "int \<Rightarrow> zone" where
  "fixedZone off = \<lparr>utcOffset = (\<lambda>t. off), localOffset = (\<lambda>t. off)\<rparr>"

text \<open>\<open>Date.prototype.getDay\<close>: the weekday in the process's local time.\<close>

definition getDay :: "zone \<Rightarrow> int \<Rightarrow> int" where
  "getDay lz t = WeekDay (LocalTime lz t)"

subsection \<open>Decimal digits\<close>

definition digitVal :: "char \<Rightarrow> int" where
  "digitVal c =
     (case map_of (zip ''0123456789'' [0, 1, 2, 3, 4, 5, 6, 7, 8, 9]) c of
        Some n \<Rightarrow> n | None \<Rightarrow> 0)"

fun digitsVal :: "int \<Rightarrow> string \<Rightarrow> int" where
  "digitsVal acc [] = acc"
| "digitsVal acc (c # cs) = digitsVal (10 * acc + digitVal c) cs"

text \<open>The digit character of a number from 0 to 9.\<close>

definition digitChar :: "int \<Rightarrow> char" where
  "digitChar n = ''0123456789'' ! nat n"

definition pad2 :: "int \<Rightarrow> string" where
  "pad2 n = [digitChar (n div 10 mod 10), digitChar (n mod 10)]"

definition pad4 :: "int \<Rightarrow> string" where
  "pad4 n = [digitChar (n div 1000 mod 10), digitChar (n div 100 mod 10),
             digitChar (n div 10 mod 10), digitChar (n mod 10)]"

definition pad6 :: "int \<Rightarrow> string" where
  "pad6 n = [digitChar (n div 100000 mod 10), digitChar (n div 10000 mod 10)] @ pad4 n"

text \<open>\<open>new Date(s + 'T00:00:00.000Z')\<close> for a string \<open>s\<close> that has passed
  \<open>dateRegex\<close>: \<open>None\<close> is the invalid date (\<open>NaN\<close>). A month outside 1..12 or a day
  outside 1..31 is invalid; a day of 29..31 that the month does not have rolls over into
  the next month.\<close>

definition parseUtcMidnight :: "string \<Rightarrow> int option" where
  "parseUtcMidnight s =
     (let y = digitsVal 0 (take 4 s);
          m = digitsVal 0 (take 2 (drop 5 s));
          d = digitsVal 0 (take 2 (drop 8 s))
      in if 1 \<le> m \<and> m \<le> 12 \<and> 1 \<le> d \<and> d \<le> 31
         then Some (MakeDate (MakeDay y (m - 1) d) 0)
         else None)"

text \<open>\<open>date.toISOString().split('T')[0]\<close>: the calendar date in UTC, with the year in
  four digits between 0 and 9999 and in six signed digits otherwise.\<close>

definition isoDatePart :: "int \<Rightarrow> string" where
  "isoDatePart t =
     (let d = Day t; y = YearFromDay d
      in (if 0 \<le> y \<and> y \<le> 9999 then pad4 y
          else if y < 0 then CHR ''-'' # pad6 (- y) else CHR ''+'' # pad6 y)
         @ ''-'' @ pad2 (MonthFromDay d + 1) @ ''-'' @ pad2 (DateFromDay d))"

section \<open>Week start of weekly tasks and focus themes\<close>

definition msgWeekStartRequired :: string where
  "msgWeekStartRequired = ''Week start date is required''"

definition msgWeekStartFormat :: string where
  "msgWeekStartFormat = ''Week start must be in YYYY-MM-DD format''"

definition msgWeekStartMonday :: string where
  "msgWeekStartMonday = ''Week start must be a Monday''"

text \<open>\<open>validateWeekStart\<close>; the successful result carries the parsed time value.\<close>

definition validateWeekStart :: "zone \<Rightarrow> jsval \<Rightarrow> int outcome" where
  "validateWeekStart lz weekStartStr =
     (if falsy weekStartStr then Err msgWeekStartRequired
      else case weekStartStr of
        JStr s \<Rightarrow>
          (let trimmed = trim s in
           if trimmed = [] then Err msgWeekStartRequired
           else if \<not> matchesFixed dateRegex trimmed then Err msgWeekStartFormat
           else case parseUtcMidnight trimmed of
             None \<Rightarrow> Err msgWeekStartFormat
           | Some parsedDate \<Rightarrow>
               if isoDatePart parsedDate \<noteq> trimmed then Err msgWeekStartFormat
               else if getDay lz parsedDate \<noteq> 1 then Err msgWeekStartMonday
               else Ok parsedDate)
      | _ \<Rightarrow> TypeError)"

section \<open>Entity validators\<close>

text \<open>A validator reads its input record only through property access, so the record is
  the function from property names to values (\<open>undefined\<close> where the property is
  absent). The returned \<open>data\<close> object is the list of its properties.\<close>

type_synonym jsinput = "string \<Rightarrow> jsval"

subsection \<open>Messages\<close>

definition msgFocusTitleEmpty :: string where
  "msgFocusTitleEmpty = ''Focus title can't be empty''"

definition msgFocusTitleTooLong :: string where
  "msgFocusTitleTooLong = ''Focus title can't exceed 60 characters''"

definition msgFocusNoteTooLong :: string where
  "msgFocusNoteTooLong = ''Focus note can't exceed 400 characters''"

definition msgTaskTitleEmpty :: string where
  "msgTaskTitleEmpty = ''Task title can't be empty''"

definition msgTaskTitleTooLong :: string where
  "msgTaskTitleTooLong = ''Task title can't exceed 80 characters''"

definition msgTargetDateFormat :: string where
  "msgTargetDateFormat = ''Target date must be in YYYY-MM-DD format''"

definition msgGoalTitleEmpty :: string where
  "msgGoalTitleEmpty = ''Goal title can't be empty''"

definition msgGoalTitleTooLong :: string where
  "msgGoalTitleTooLong = ''Goal title can't exceed 100 characters''"

definition msgDescriptionEmpty :: string where
  "msgDescriptionEmpty = ''Description can't be empty when provided''"

definition msgDescriptionTooLong :: string where
  "msgDescriptionTooLong = ''Description can't exceed 1000 characters''"

definition msgHorizonOneOf :: string where
  "msgHorizonOneOf = ''Horizon must be one of: YEAR, SIX_MONTH, MONTH, WEEK''"

definition msgStatusOneOf :: string where
  "msgStatusOneOf = ''Status must be one of: active, paused, done''"

definition msgNameEmpty :: string where
  "msgNameEmpty = ''Name can't be empty''"

definition msgNameTooLong :: string where
  "msgNameTooLong = ''Life area name can't exceed 50 characters''"

definition msgColorFormat :: string where
  "msgColorFormat = ''Color must be exactly 6 hex digits after # (e.g., #FF6B35)''"

definition msgVisionEmpty :: string where
  "msgVisionEmpty = ''Vision can't be empty when provided''"

definition msgVisionTooLong :: string where
  "msgVisionTooLong = ''Vision can't exceed 500 characters''"

definition msgStrategyEmpty :: string where
  "msgStrategyEmpty = ''Strategy can't be empty when provided''"

definition msgStrategyTooLong :: string where
  "msgStrategyTooLong = ''Strategy can't exceed 500 characters''"

definition msgSignalTypeRequiredForValue :: string where
  "msgSignalTypeRequiredForValue = ''Signal type is required for value validation''"

definition msgInvalidSignalTypeForValue :: string where
  "msgInvalidSignalTypeForValue = ''Invalid signal type for value validation''"

definition msgSignalValueNotNumber :: string where
  "msgSignalValueNotNumber = ''Signal value must be a valid number''"

definition msgSignalValueRequired :: string where
  "msgSignalValueRequired = ''Signal value is required''"

definition obind :: "'a outcome \<Rightarrow> ('a \<Rightarrow> 'b outcome) \<Rightarrow> 'b outcome" where
  "obind m f = (case m of Ok x \<Rightarrow> f x | Err e \<Rightarrow> Err e | TypeError \<Rightarrow> TypeError)"

text \<open>The local helper \<open>trimField\<close> of each validator: \<open>null\<close> for a missing, null or
  blank value, the trimmed string otherwise.\<close>

definition trimField :: "jsval \<Rightarrow> jsval outcome" where
  "trimField v =
     (case v of
        JUndefined \<Rightarrow> Ok JNull
      | JNull \<Rightarrow> Ok JNull
      | JStr s \<Rightarrow> (let trimmed = trim s in if trimmed = [] then Ok JNull else Ok (JStr trimmed))
      | _ \<Rightarrow> TypeError)"

text \<open>\<open>.length\<close> of a value that is a string or null (null has none and is guarded in
  the source by a truthiness test).\<close>

definition strLength :: "jsval \<Rightarrow> nat" where
  "strLength v = (case v of JStr s \<Rightarrow> length s | _ \<Rightarrow> 0)"

text \<open>\<open>list.includes(v)\<close> on a list of strings.\<close>

definition arrayIncludes :: "string list \<Rightarrow> jsval \<Rightarrow> bool" where
  "arrayIncludes xs v = (case v of JStr s \<Rightarrow> List.member xs s | _ \<Rightarrow> False)"

text \<open>The block that processes \<open>goalId\<close> in \<open>validateWeeklyTaskInput\<close> and
  \<open>lifeAreaId\<close> in \<open>validateGoalInput\<close>: the variable starts as \<open>null\<close>, and a
  supplied value is trimmed, with blank becoming \<open>null\<close>. No pattern is tested.\<close>

definition processOptionalId :: "jsval \<Rightarrow> jsval outcome" where
  "processOptionalId v =
     (if v \<noteq> JUndefined then
        (if v = JNull then Ok JNull
         else case v of
           JStr s \<Rightarrow> if trim s = [] then Ok JNull else Ok (JStr (trim s))
         | _ \<Rightarrow> TypeError)
      else Ok JNull)"

subsection \<open>Linked goals\<close>

definition msgGoalIdsUuid :: string where
  "msgGoalIdsUuid = ''All goal IDs must be valid UUIDs''"

definition msgTooManyGoals :: string where
  "msgTooManyGoals = ''Can't link more than 3 goals''"

definition msgDuplicateGoal :: string where
  "msgDuplicateGoal = ''Can't link the same goal multiple times''"

text \<open>The loop of \<open>validateLinkedGoals\<close> over the remaining elements, with the set
  \<open>seenIds\<close> and the list \<open>cleanedIds\<close> built so far.\<close>

fun linkedGoalsLoop :: "string set \<Rightarrow> string list \<Rightarrow> jsval list \<Rightarrow> string list outcome" where
  "linkedGoalsLoop seenIds cleanedIds [] = Ok cleanedIds"
| "linkedGoalsLoop seenIds cleanedIds (v # ids) =
     (case v of
        JStr s \<Rightarrow>
          (let cleanId = trim s in
           if \<not> isValidUUID cleanId then Err msgGoalIdsUuid
           else if cleanId \<in> seenIds then Err msgDuplicateGoal
           else linkedGoalsLoop (insert cleanId seenIds) (cleanedIds @ [cleanId]) ids)
      | _ \<Rightarrow> Err msgGoalIdsUuid)"

definition validateLinkedGoals :: "jsval \<Rightarrow> string list outcome" where
  "validateLinkedGoals goalIds =
     (if falsy goalIds then Ok []
      else case goalIds of
        JArr ids \<Rightarrow>
          if length ids > 3 then Err msgTooManyGoals
          else linkedGoalsLoop {} [] ids
      | _ \<Rightarrow> Err msgGoalIdsUuid)"

subsection \<open>Weekly focus theme\<close>

definition validateFocusInput :: "zone \<Rightarrow> jsinput \<Rightarrow> bool \<Rightarrow> jsobject outcome" where
  "validateFocusInput lz input partial =
     obind (trimField (input ''title'')) (\<lambda>title.
     if (\<not> partial \<or> input ''title'' \<noteq> JUndefined) \<and> falsy title
       then Err msgFocusTitleEmpty
     else if (\<not> partial \<or> input ''title'' \<noteq> JUndefined) \<and> strLength title > 60
       then Err msgFocusTitleTooLong
     else
     obind (if input ''note'' \<noteq> JUndefined then trimField (input ''note'') else Ok JNull) (\<lambda>note.
     if input ''note'' \<noteq> JUndefined \<and> \<not> falsy note \<and> strLength note > 400
       then Err msgFocusNoteTooLong
     else
     obind (if \<not> partial \<or> input ''weekStart'' \<noteq> JUndefined
            then obind (validateWeekStart lz (input ''weekStart'')) (\<lambda>w. Ok (JDate w))
            else Ok JUndefined) (\<lambda>weekStart.
     obind (if input ''linkedGoals'' \<noteq> JUndefined
            then validateLinkedGoals (input ''linkedGoals'')
            else Ok []) (\<lambda>linkedGoals.
     Ok (if \<not> partial then
           [(''title'', title), (''note'', note), (''weekStart'', weekStart),
            (''linkedGoals'', JArr (map JStr linkedGoals))]
         else
           (if title \<noteq> JUndefined then [(''title'', title)] else [])
           @ (if input ''note'' \<noteq> JUndefined then [(''note'', note)] else [])
           @ (if weekStart \<noteq> JUndefined then [(''weekStart'', weekStart)] else [])
           @ (if input ''linkedGoals'' \<noteq> JUndefined
              then [(''linkedGoals'', JArr (map JStr linkedGoals))] else []))))))"

subsection \<open>Weekly task\<close>

definition days :: "string list" where
  "days = [''monday'', ''tuesday'', ''wednesday'', ''thursday'', ''friday'', ''saturday'',
           ''sunday'']"

text \<open>\<open>day.charAt(0).toUpperCase() + day.slice(1)\<close>, on the lower-case ASCII names.\<close>

definition toUpperCaseChar :: "char \<Rightarrow> char" where
  "toUpperCaseChar c =
     (case map_of (zip ''abcdefghijklmnopqrstuvwxyz'' ''ABCDEFGHIJKLMNOPQRSTUVWXYZ'') c of
        Some u \<Rightarrow> u | None \<Rightarrow> c)"

definition capitalize :: "string \<Rightarrow> string" where
  "capitalize day = map toUpperCaseChar (take 1 day) @ drop 1 day"

text \<open>The loop over the day names; the result is \<open>dayValues\<close>.\<close>

fun processDays :: "jsinput \<Rightarrow> bool \<Rightarrow> string list \<Rightarrow> jsobject outcome" where
  "processDays input partial [] = Ok []"
| "processDays input partial (day # rest) =
     (if \<not> partial \<or> input day \<noteq> JUndefined then
        (if input day = JUndefined \<or> input day = JNull
           then Err (capitalize day @ '' is required'')
         else case input day of
           JBool b \<Rightarrow> obind (processDays input partial rest) (\<lambda>dayValues.
                        Ok ((day, JBool b) # dayValues))
         | _ \<Rightarrow> Err (capitalize day @ '' must be true or false''))
      else processDays input partial rest)"

definition validateWeeklyTaskInput :: "zone \<Rightarrow> jsinput \<Rightarrow> bool \<Rightarrow> jsobject outcome" where
  "validateWeeklyTaskInput lz input partial =
     obind (trimField (input ''title'')) (\<lambda>title.
     if (\<not> partial \<or> input ''title'' \<noteq> JUndefined) \<and> falsy title
       then Err msgTaskTitleEmpty
     else if (\<not> partial \<or> input ''title'' \<noteq> JUndefined) \<and> strLength title > 80
       then Err msgTaskTitleTooLong
     else
     obind (if \<not> partial \<or> input ''weekStart'' \<noteq> JUndefined
            then obind (validateWeekStart lz (input ''weekStart'')) (\<lambda>w. Ok (JDate w))
            else Ok JUndefined) (\<lambda>weekStart.
     obind (processDays input partial days) (\<lambda>dayValues.
     obind (processOptionalId (input ''goalId'')) (\<lambda>goalId.
     Ok (if \<not> partial then
           [(''title'', title), (''weekStart'', weekStart),
            (''monday'', getProp dayValues ''monday''),
            (''tuesday'', getProp dayValues ''tuesday''),
            (''wednesday'', getProp dayValues ''wednesday''),
            (''thursday'', getProp dayValues ''thursday''),
            (''friday'', getProp dayValues ''friday''),
            (''saturday'', getProp dayValues ''saturday''),
            (''sunday'', getProp dayValues ''sunday''),
            (''goalId'', goalId)]
         else
           (if title \<noteq> JUndefined then [(''title'', title)] else [])
           @ (if weekStart \<noteq> JUndefined then [(''weekStart'', weekStart)] else [])
           @ dayValues
           @ (if input ''goalId'' \<noteq> JUndefined then [(''goalId'', goalId)] else []))))))"

subsection \<open>Goal\<close>

definition VALID_HORIZONS :: "string list" where
  "VALID_HORIZONS = [''YEAR'', ''SIX_MONTH'', ''MONTH'', ''WEEK'']"

definition VALID_STATUSES :: "string list" where
  "VALID_STATUSES = [''active'', ''paused'', ''done'']"

text \<open>The block that processes \<open>targetDate\<close>.\<close>

definition processTargetDate :: "jsval \<Rightarrow> jsval outcome" where
  "processTargetDate v =
     (if v \<noteq> JUndefined then
        (if v = JNull then Ok JNull
         else case v of
           JStr s \<Rightarrow>
             (let trimmedDate = trim s in
              if trimmedDate = [] then Ok JNull
              else if \<not> matchesFixed dateRegex trimmedDate
                then Err msgTargetDateFormat
              else case parseUtcMidnight trimmedDate of
                None \<Rightarrow> Err msgTargetDateFormat
              | Some parsedDate \<Rightarrow>
                  if isoDatePart parsedDate \<noteq> trimmedDate
                    then Err msgTargetDateFormat
                  else Ok (JDate parsedDate))
         | _ \<Rightarrow> TypeError)
      else Ok JNull)"

text \<open>\<open>x || undefined\<close> on a string variable.\<close>

definition orUndefined :: "jsval \<Rightarrow> jsval" where
  "orUndefined v = (if falsy v then JUndefined else v)"

definition validateGoalInput :: "jsinput \<Rightarrow> bool \<Rightarrow> jsobject outcome" where
  "validateGoalInput input partial =
     obind (trimField (input ''title'')) (\<lambda>title.
     if (\<not> partial \<or> input ''title'' \<noteq> JUndefined) \<and> falsy title
       then Err msgGoalTitleEmpty
     else if (\<not> partial \<or> input ''title'' \<noteq> JUndefined) \<and> strLength title > 100
       then Err msgGoalTitleTooLong
     else
     obind (trimField (input ''description'')) (\<lambda>description.
     if input ''description'' \<noteq> JUndefined \<and> input ''description'' \<noteq> JNull
        \<and> description = JNull
       then Err msgDescriptionEmpty
     else if \<not> falsy description \<and> strLength description > 1000
       then Err msgDescriptionTooLong
     else
     obind (if \<not> partial \<or> input ''horizon'' \<noteq> JUndefined then
              (if falsy (input ''horizon'') \<or> \<not> arrayIncludes VALID_HORIZONS (input ''horizon'')
                 then Err msgHorizonOneOf
               else Ok (input ''horizon''))
            else Ok (JStr [])) (\<lambda>horizon.
     obind (if \<not> partial \<or> input ''status'' \<noteq> JUndefined then
              (if falsy (input ''status'') \<or> \<not> arrayIncludes VALID_STATUSES (input ''status'')
                 then Err msgStatusOneOf
               else Ok (input ''status''))
            else Ok (JStr [])) (\<lambda>status.
     obind (processTargetDate (input ''targetDate'')) (\<lambda>targetDate.
     obind (processOptionalId (input ''lifeAreaId'')) (\<lambda>lifeAreaId.
     (let data =
        [(''title'', title),
         (''description'',
            if partial \<and> input ''description'' = JUndefined then JUndefined else description),
         (''horizon'', orUndefined horizon),
         (''status'', orUndefined status),
         (''targetDate'',
            if partial \<and> input ''targetDate'' = JUndefined then JUndefined else targetDate),
         (''lifeAreaId'',
            if partial \<and> input ''lifeAreaId'' = JUndefined then JUndefined else lifeAreaId)]
      in Ok (if partial then filter (\<lambda>kv. snd kv \<noteq> JUndefined) data else data))))))))"

subsection \<open>Life area\<close>

definition validateLifeAreaInput :: "jsinput \<Rightarrow> bool \<Rightarrow> jsobject outcome" where
  "validateLifeAreaInput input isUpdate =
     obind (trimField (input ''name'')) (\<lambda>name.
     if (\<not> isUpdate \<or> input ''name'' \<noteq> JUndefined) \<and> falsy name
       then Err msgNameEmpty
     else if (\<not> isUpdate \<or> input ''name'' \<noteq> JUndefined) \<and> strLength name > 50
       then Err msgNameTooLong
     else
     obind (trimField (input ''color'')) (\<lambda>color.
     if color \<noteq> JNull \<and> \<not> (case color of JStr c \<Rightarrow> matchesFixed colorRegex c | _ \<Rightarrow> False)
       then Err msgColorFormat
     else
     obind (trimField (input ''vision'')) (\<lambda>vision.
     if input ''vision'' \<noteq> JUndefined \<and> input ''vision'' \<noteq> JNull \<and> vision = JNull
       then Err msgVisionEmpty
     else if \<not> falsy vision \<and> strLength vision > 500
       then Err msgVisionTooLong
     else
     obind (trimField (input ''strategy'')) (\<lambda>strategy.
     if input ''strategy'' \<noteq> JUndefined \<and> input ''strategy'' \<noteq> JNull \<and> strategy = JNull
       then Err msgStrategyEmpty
     else if \<not> falsy strategy \<and> strLength strategy > 500
       then Err msgStrategyTooLong
     else
     Ok [(''name'', name), (''color'', color), (''vision'', vision),
         (''strategy'', strategy), (''order'', input ''order'')]))))"

subsection \<open>Signal value\<close>

definition msgSleepMax :: string where
  "msgSleepMax = ''Sleep hours can't exceed 14''"

definition msgSleepStep :: string where
  "msgSleepStep = ''Sleep hours must be in 0.25-hour increments (7.25, 7.50, 7.75, etc.)''"

definition msgWellbeing :: string where
  "msgWellbeing = ''Wellbeing must be a whole number between 1 and 10''"

text \<open>\<open>Math.round\<close>: the nearest integer, a tie going up.\<close>

definition mathRound :: "rat \<Rightarrow> rat" where
  "mathRound x = of_int \<lfloor>x + 1 / 2\<rfloor>"

definition isInteger :: "rat \<Rightarrow> bool" where
  "isInteger x = (of_int \<lfloor>x\<rfloor> = x)"

definition validateSignalValue :: "jsval \<Rightarrow> jsval \<Rightarrow> jsval outcome" where
  "validateSignalValue v type =
     (case v of
        JNum n \<Rightarrow>
          (case n of
             Fin x \<Rightarrow>
               if falsy type then Err msgSignalTypeRequiredForValue
               else if type = JStr ''SLEEP'' then
                 (if x > 14 then Err msgSleepMax
                  else if x < 0 then Err msgSleepStep
                  else if mathRound (x * 4) \<noteq> x * 4 then Err msgSleepStep
                  else Ok v)
               else if type = JStr ''WELLBEING'' then
                 (if \<not> isInteger x \<or> x < 1 \<or> x > 10 then Err msgWellbeing
                  else Ok v)
               else Err msgInvalidSignalTypeForValue
           | _ \<Rightarrow> Err msgSignalValueNotNumber)
      | _ \<Rightarrow> Err msgSignalValueRequired)"

section \<open>Database errors to user copy\<close>

record ErrorContext =
  title :: "string option"
  weekStart :: "string option"
  lifeAreaName :: "string option"

definition msgGeneric :: string where
  "msgGeneric = ''Something went wrong. Please try again.''"

text \<open>\<open>ctx?.field || fallback\<close>: the fallback for a missing context, a missing field
  and the empty string.\<close>

definition ctxOr :: "ErrorContext option \<Rightarrow> (ErrorContext \<Rightarrow> string option) \<Rightarrow> string \<Rightarrow> string" where
  "ctxOr ctx field fallback =
     (case ctx of
        None \<Rightarrow> fallback
      | Some c \<Rightarrow> (case field c of None \<Rightarrow> fallback
                  | Some s \<Rightarrow> if s = [] then fallback else s))"

definition quoted :: "string \<Rightarrow> string" where
  "quoted s = [CHR 0x27] @ s @ [CHR 0x27]"

definition mapUniqueConstraint :: "string \<Rightarrow> ErrorContext option \<Rightarrow> string" where
  "mapUniqueConstraint targetColumns ctx =
     (if targetColumns = ''userId,nameNorm'' then
        ''You already have a life area named '' @ quoted (ctxOr ctx lifeAreaName ''that name'')
      else if targetColumns = ''userId,weekStart,titleNorm'' then
        ''You already have a task called '' @ quoted (ctxOr ctx title ''this task'')
          @ '' for the week of '' @ ctxOr ctx weekStart ''this week''
      else if targetColumns = ''userId,weekStart'' then
        ''You already set a focus for the week of '' @ ctxOr ctx weekStart ''this week''
      else if targetColumns = ''weeklyFocusThemeId,goalId'' then
        ''Can't link the same goal multiple times''
      else msgGeneric)"

text \<open>The \<open>switch\<close> compares with \<open>===\<close>, so only a string can match a case.\<close>

definition mapNamedConstraint :: "jsval \<Rightarrow> ErrorContext option \<Rightarrow> string" where
  "mapNamedConstraint constraintName ctx =
     (if constraintName = JStr ''uniq_lifearea_user_namenorm'' then
        ''You already have a life area named '' @ quoted (ctxOr ctx lifeAreaName ''that name'')
      else if constraintName = JStr ''uniq_weeklytask_user_week_title'' then
        ''You already have a task called '' @ quoted (ctxOr ctx title ''this task'')
          @ '' for the week of '' @ ctxOr ctx weekStart ''this week''
      else if constraintName = JStr ''uniq_focus_user_week'' then
        ''You already set a focus for the week of '' @ ctxOr ctx weekStart ''this week''
      else if constraintName = JStr ''uniq_focus_goal_link'' then
        ''Can't link the same goal multiple times''
      else msgGeneric)"

definition mapCheckConstraint :: "jsval \<Rightarrow> string" where
  "mapCheckConstraint constraintName =
     (if constraintName = JStr ''chk_signal_sleep_bounds'' then ''Sleep hours can't exceed 14''
      else if constraintName = JStr ''chk_signal_sleep_quarter'' then
        ''Sleep hours must be in 0.25-hour increments (7.25, 7.50, 7.75, etc.)''
      else if constraintName = JStr ''chk_signal_wellbeing_range''
              \<or> constraintName = JStr ''chk_signal_wellbeing_int'' then
        ''Wellbeing must be a whole number between 1 and 10''
      else msgGeneric)"

text \<open>Reading one of the properties \<open>code\<close>, \<open>constraint\<close>, \<open>meta\<close>, \<open>target\<close> of
  any value: only a plain object can have them.\<close>

definition readProp :: "jsval \<Rightarrow> string \<Rightarrow> jsval" where
  "readProp v k = (case v of JObj ps \<Rightarrow> getProp ps k | _ \<Rightarrow> JUndefined)"

text \<open>\<open>typeof v === 'object'\<close>\<close>

definition typeofObject :: "jsval \<Rightarrow> bool" where
  "typeofObject v =
     (case v of JNull \<Rightarrow> True | JDate t \<Rightarrow> True | JArr xs \<Rightarrow> True | JObj ps \<Rightarrow> True
      | _ \<Rightarrow> False)"

text \<open>\<open>Array.prototype.join(',')\<close>: \<open>undefined\<close> and \<open>null\<close> elements give the empty
  string, a string gives itself; the conversion of any other element to a string is the
  parameter \<open>toStr\<close>.\<close>

definition elementString :: "(jsval \<Rightarrow> string) \<Rightarrow> jsval \<Rightarrow> string" where
  "elementString toStr v =
     (case v of JUndefined \<Rightarrow> [] | JNull \<Rightarrow> [] | JStr s \<Rightarrow> s | _ \<Rightarrow> toStr v)"

fun joinWith :: "string \<Rightarrow> string list \<Rightarrow> string" where
  "joinWith sep [] = []"
| "joinWith sep [x] = x"
| "joinWith sep (x # y # r) = x @ sep @ joinWith sep (y # r)"

text \<open>\<open>Array.isArray\<close> and the elements of an array.\<close>

definition isArray :: "jsval \<Rightarrow> bool" where
  "isArray v = (case v of JArr xs \<Rightarrow> True | _ \<Rightarrow> False)"

definition elements :: "jsval \<Rightarrow> jsval list" where
  "elements v = (case v of JArr xs \<Rightarrow> xs | _ \<Rightarrow> [])"

definition mapDbErrorToUserCopy ::
    "(jsval \<Rightarrow> string) \<Rightarrow> jsval \<Rightarrow> ErrorContext option \<Rightarrow> string" where
  "mapDbErrorToUserCopy toStr err ctx =
     (if falsy err \<or> \<not> typeofObject err then msgGeneric
      else
        let code = readProp err ''code'';
            target = readProp (readProp err ''meta'') ''target'';
            constraint = readProp err ''constraint''
        in if code = JStr ''P2002'' \<and> isArray target
             then mapUniqueConstraint
                    (joinWith '','' (map (elementString toStr) (elements target))) ctx
           else if code = JStr ''23505'' \<and> \<not> falsy constraint
             then mapNamedConstraint constraint ctx
           else if code = JStr ''23514'' \<and> \<not> falsy constraint
             then mapCheckConstraint constraint
           else if \<not> falsy constraint \<and> mapNamedConstraint constraint ctx \<noteq> msgGeneric
             then mapNamedConstraint constraint ctx
           else msgGeneric)"

section \<open>Week start of an instant\<close>

text \<open>The \<open>Date\<close> setters and getters used by \<open>weekStartFor\<close>, all in the process's
  local time \<open>lz\<close>.\<close>

definition setFullYear :: "zone \<Rightarrow> int \<Rightarrow> int \<Rightarrow> int \<Rightarrow> int \<Rightarrow> int" where
  "setFullYear lz t y m dt = UTC lz (MakeDate (MakeDay y m dt) (TimeWithinDay (LocalTime lz t)))"

definition setHoursZero :: "zone \<Rightarrow> int \<Rightarrow> int" where
  "setHoursZero lz t = UTC lz (MakeDate (Day (LocalTime lz t)) 0)"

definition getDate :: "zone \<Rightarrow> int \<Rightarrow> int" where
  "getDate lz t = DateFromDay (Day (LocalTime lz t))"

definition setDate :: "zone \<Rightarrow> int \<Rightarrow> int \<Rightarrow> int" where
  "setDate lz t dt =
     (let lt = LocalTime lz t; d = Day lt
      in UTC lz (MakeDate (MakeDay (YearFromDay d) (MonthFromDay d) dt) (TimeWithinDay lt)))"

text \<open>The formatter prints the year of the era, without the era: the year 0 is 1 BC and
  is printed as 1, the year before it as 2.\<close>

definition eraYear :: "int \<Rightarrow> int" where
  "eraYear y = (if y \<le> 0 then 1 - y else y)"

text \<open>\<open>weekStartFor(date, timezone)\<close>. The formatter renders the calendar date of
  \<open>date\<close> in the zone \<open>tz\<close>, and the three numbers are read back from its text;
  \<open>new Date()\<close> is the current instant \<open>now\<close>; every later step works in the process's
  zone \<open>lz\<close>.\<close>

definition weekStartFor :: "zone \<Rightarrow> int \<Rightarrow> int \<Rightarrow> zone \<Rightarrow> int" where
  "weekStartFor lz now date tz =
     (let ld = Day (LocalTime tz date);
          year = eraYear (YearFromDay ld);
          month = MonthFromDay ld + 1;
          day = DateFromDay ld;
          tzDate = setHoursZero lz (setFullYear lz now year (month - 1) day);
          dayOfWeek = getDay lz tzDate;
          daysToSubtract = (if dayOfWeek = 0 then 6 else dayOfWeek - 1);
          monday = setDate lz tzDate (getDate lz tzDate - daysToSubtract)
      in setHoursZero lz monday)"

section \<open>Vocabulary of the properties\<close>

text \<open>The recognised error shapes, in the words of the specification: a unique violation
  is signalled by the code \<open>P2002\<close> with a column list whose comma-joined form is a key
  of the column table, or by a constraint name of the name table; a check violation by
  the code \<open>23514\<close> with a constraint name of the check table.\<close>

definition uniqueTargets :: "string list" where
  "uniqueTargets = [''userId,nameNorm'', ''userId,weekStart,titleNorm'', ''userId,weekStart'',
     ''weeklyFocusThemeId,goalId'']"

definition uniqueConstraintNames :: "string list" where
  "uniqueConstraintNames = [''uniq_lifearea_user_namenorm'', ''uniq_weeklytask_user_week_title'',
     ''uniq_focus_user_week'', ''uniq_focus_goal_link'']"

definition checkConstraintNames :: "string list" where
  "checkConstraintNames = [''chk_signal_sleep_bounds'', ''chk_signal_sleep_quarter'',
     ''chk_signal_wellbeing_range'', ''chk_signal_wellbeing_int'']"

definition namedIn :: "string list \<Rightarrow> jsval \<Rightarrow> bool" where
  "namedIn names v = (case v of JStr c \<Rightarrow> c \<in> set names | _ \<Rightarrow> False)"

definition recognizedShape :: "(jsval \<Rightarrow> string) \<Rightarrow> jsval \<Rightarrow> bool" where
  "recognizedShape toStr err =
     ((readProp err ''code'' = JStr ''P2002''
         \<and> isArray (readProp (readProp err ''meta'') ''target'')
         \<and> joinWith '','' (map (elementString toStr)
               (elements (readProp (readProp err ''meta'') ''target''))) \<in> set uniqueTargets)
      \<or> namedIn uniqueConstraintNames (readProp err ''constraint'')
      \<or> (readProp err ''code'' = JStr ''23514''
            \<and> namedIn checkConstraintNames (readProp err ''constraint'')))"

text \<open>An element of a linked-goals array is good when it is a string whose trimmed form
  is a UUID; its cleaned form is the trimmed string.\<close>

definition goodGoalId :: "jsval \<Rightarrow> bool" where
  "goodGoalId v = (case v of JStr s \<Rightarrow> isValidUUID (trim s) | _ \<Rightarrow> False)"

definition cleanGoalId :: "jsval \<Rightarrow> string" where
  "cleanGoalId v = (case v of JStr s \<Rightarrow> trim s | _ \<Rightarrow> [])"

text \<open>Calendar dates, for stating what the date validators accept: the three numbers of
  a string of the form \<open>YYYY-MM-DD\<close>, the days of a month, and when such a string denotes
  a real calendar date. The UTC-midnight instant of the date is the time value the standard
  gives it.\<close>

definition dateFields :: "string \<Rightarrow> int \<times> int \<times> int" where
  "dateFields s =
     (digitsVal 0 (take 4 s), digitsVal 0 (take 2 (drop 5 s)), digitsVal 0 (take 2 (drop 8 s)))"

definition daysInMonth :: "int \<Rightarrow> int \<Rightarrow> int" where
  "daysInMonth y m =
     (if m = 2 then (if InLeapYear y then 29 else 28)
      else if m = 4 \<or> m = 6 \<or> m = 9 \<or> m = 11 then 30
      else 31)"

definition realCalendarDate :: "string \<Rightarrow> bool" where
  "realCalendarDate s =
     (matchesFixed dateRegex s
      \<and> (case dateFields s of (y, m, d) \<Rightarrow>
            1 \<le> m \<and> m \<le> 12 \<and> 1 \<le> d \<and> d \<le> daysInMonth y m))"

definition utcMidnightOf :: "string \<Rightarrow> int" where
  "utcMidnightOf s = (case dateFields s of (y, m, d) \<Rightarrow> MakeDate (MakeDay y (m - 1) d) 0)"

section \<open>Signal values\<close>

lemma mathRound_fixed: "mathRound y = y \<longleftrightarrow> (\<exists>k::int. y = of_int k)"
proof
  assume "mathRound y = y"
  then have "y = of_int \<lfloor>y + 1 / 2\<rfloor>" by (simp add: mathRound_def)
  then show "\<exists>k::int. y = of_int k" by blast
next
  assume "\<exists>k::int. y = of_int k"
  then obtain k :: int where k: "y = of_int k" by blast
  have "\<lfloor>(of_int k :: rat) + 1 / 2\<rfloor> = k" by linarith
  with k show "mathRound y = y" by (simp add: mathRound_def)
qed

lemma isInteger_iff: "isInteger x \<longleftrightarrow> (\<exists>k::int. x = of_int k)"
  unfolding isInteger_def by (metis floor_of_int)

lemma validateSignalValue_sleep_finite:
  "validateSignalValue (JNum (Fin x)) (JStr ''SLEEP'') =
     (if x > 14 then Err msgSleepMax
      else if x < 0 \<or> \<not> (\<exists>k::int. x * 4 = of_int k) then Err msgSleepStep
      else Ok (JNum (Fin x)))"
  unfolding validateSignalValue_def mathRound_fixed [symmetric] by simp

lemma validateSignalValue_wellbeing_finite:
  "validateSignalValue (JNum (Fin x)) (JStr ''WELLBEING'') =
     (if (\<exists>k::int. x = of_int k \<and> 1 \<le> k \<and> k \<le> 10) then Ok (JNum (Fin x))
      else Err msgWellbeing)"
proof -
  have "(isInteger x \<and> 1 \<le> x \<and> x \<le> 10) \<longleftrightarrow> (\<exists>k::int. x = of_int k \<and> 1 \<le> k \<and> k \<le> 10)"
    unfolding isInteger_iff by auto
  then show ?thesis
    unfolding validateSignalValue_def by auto
qed

lemma validateSignalValue_not_finite:
  "(\<And>x. v \<noteq> JNum (Fin x)) \<Longrightarrow> validateSignalValue v t \<noteq> Ok y"
  unfolding validateSignalValue_def by (auto split: jsval.splits jsnum.splits)

lemma sleep_accepted_iff:
  "(\<exists>y. validateSignalValue v (JStr ''SLEEP'') = Ok y)
     \<longleftrightarrow> (\<exists>x. v = JNum (Fin x) \<and> 0 \<le> x \<and> x \<le> 14 \<and> (\<exists>k::int. x * 4 = of_int k))"
proof (cases "\<exists>x. v = JNum (Fin x)")
  case True
  then obtain x where "v = JNum (Fin x)" by blast
  then show ?thesis by (auto simp: validateSignalValue_sleep_finite)
next
  case False
  then show ?thesis using validateSignalValue_not_finite [of v] by blast
qed

lemma wellbeing_accepted_iff:
  "(\<exists>y. validateSignalValue v (JStr ''WELLBEING'') = Ok y)
     \<longleftrightarrow> (\<exists>k::int. v = JNum (Fin (of_int k)) \<and> 1 \<le> k \<and> k \<le> 10)"
proof (cases "\<exists>x. v = JNum (Fin x)")
  case True
  then obtain x where "v = JNum (Fin x)" by blast
  then show ?thesis by (auto simp: validateSignalValue_wellbeing_finite)
next
  case False
  then show ?thesis using validateSignalValue_not_finite [of v] by blast
qed

text \<open>C5, as the code has it. For the type SLEEP, \<open>validateSignalValue\<close> accepts exactly
  the finite numbers \<open>x\<close> with \<open>0 \<le> x \<le> 14\<close> whose fourfold is an integer (the multiples
  of 0.25); a finite value above 14 gets the upper-bound message, which is tested first; a
  finite negative value and a finite value of at most 14 off the 0.25 grid get the
  increment message. For the type WELLBEING it accepts exactly the integers 1 to 10, and
  every other finite number gets the one combined message. The bounds are never reached
  by a value that is not a finite number: \<open>NaN\<close>, \<open>Infinity\<close> and \<open>-Infinity\<close> get the message
  \<open>Signal value must be a valid number\<close> whatever the type, and a value that is not a number
  gets \<open>Signal value is required\<close>.\<close>

theorem C5_validateSignalValue_bounds:
  "(\<forall>v. (\<exists>y. validateSignalValue v (JStr ''SLEEP'') = Ok y)
          \<longleftrightarrow> (\<exists>x. v = JNum (Fin x) \<and> 0 \<le> x \<and> x \<le> 14 \<and> (\<exists>k::int. x * 4 = of_int k)))
   \<and> (\<forall>x. 14 < x \<longrightarrow>
          validateSignalValue (JNum (Fin x)) (JStr ''SLEEP'') = Err ''Sleep hours can't exceed 14'')
   \<and> (\<forall>x. x < 0 \<or> (x \<le> 14 \<and> \<not> (\<exists>k::int. x * 4 = of_int k)) \<longrightarrow>
          validateSignalValue (JNum (Fin x)) (JStr ''SLEEP'')
            = Err ''Sleep hours must be in 0.25-hour increments (7.25, 7.50, 7.75, etc.)'')
   \<and> (\<forall>v. (\<exists>y. validateSignalValue v (JStr ''WELLBEING'') = Ok y)
          \<longleftrightarrow> (\<exists>k::int. v = JNum (Fin (of_int k)) \<and> 1 \<le> k \<and> k \<le> 10))
   \<and> (\<forall>x. \<not> (\<exists>k::int. x = of_int k \<and> 1 \<le> k \<and> k \<le> 10) \<longrightarrow>
          validateSignalValue (JNum (Fin x)) (JStr ''WELLBEING'')
            = Err ''Wellbeing must be a whole number between 1 and 10'')
   \<and> (\<forall>n type. (\<forall>x. n \<noteq> Fin x) \<longrightarrow>
          validateSignalValue (JNum n) type = Err ''Signal value must be a valid number'')
   \<and> (\<forall>v type. (\<forall>n. v \<noteq> JNum n) \<longrightarrow>
          validateSignalValue v type = Err ''Signal value is required'')"
proof (intro conjI allI impI)
  fix v
  show "(\<exists>y. validateSignalValue v (JStr ''SLEEP'') = Ok y)
          \<longleftrightarrow> (\<exists>x. v = JNum (Fin x) \<and> 0 \<le> x \<and> x \<le> 14 \<and> (\<exists>k::int. x * 4 = of_int k))"
    by (rule sleep_accepted_iff)
next
  fix x :: rat
  assume "14 < x"
  then show "validateSignalValue (JNum (Fin x)) (JStr ''SLEEP'') = Err ''Sleep hours can't exceed 14''"
    by (simp add: validateSignalValue_sleep_finite msgSleepMax_def)
next
  fix x :: rat
  assume "x < 0 \<or> (x \<le> 14 \<and> \<not> (\<exists>k::int. x * 4 = of_int k))"
  then show "validateSignalValue (JNum (Fin x)) (JStr ''SLEEP'')
      = Err ''Sleep hours must be in 0.25-hour increments (7.25, 7.50, 7.75, etc.)''"
    by (auto simp: validateSignalValue_sleep_finite msgSleepStep_def)
next
  fix v
  show "(\<exists>y. validateSignalValue v (JStr ''WELLBEING'') = Ok y)
          \<longleftrightarrow> (\<exists>k::int. v = JNum (Fin (of_int k)) \<and> 1 \<le> k \<and> k \<le> 10)"
    by (rule wellbeing_accepted_iff)
next
  fix x :: rat
  assume "\<not> (\<exists>k::int. x = of_int k \<and> 1 \<le> k \<and> k \<le> 10)"
  then show "validateSignalValue (JNum (Fin x)) (JStr ''WELLBEING'')
      = Err ''Wellbeing must be a whole number between 1 and 10''"
    by (simp add: validateSignalValue_wellbeing_finite msgWellbeing_def)
next
  fix n type
  assume "\<forall>x. n \<noteq> Fin x"
  then show "validateSignalValue (JNum n) type = Err ''Signal value must be a valid number''"
    by (cases n) (simp_all add: validateSignalValue_def msgSignalValueNotNumber_def)
next
  fix v type
  assume "\<forall>n. v \<noteq> JNum n"
  then show "validateSignalValue v type = Err ''Signal value is required''"
    by (cases v) (simp_all add: validateSignalValue_def msgSignalValueRequired_def)
qed

lemma not_quarter_73_10: "\<not> (\<exists>k::int. (73 / 10 :: rat) * 4 = of_int k)"
proof
  assume "\<exists>k::int. (73 / 10 :: rat) * 4 = of_int k"
  then obtain k :: int where "(73 / 10 :: rat) * 4 = of_int k" by blast
  then have "(of_int (5 * k) :: rat) = of_int 146" by simp
  then have "5 * k = 146" by (simp only: of_int_eq_iff)
  then show False by presburger
qed

lemma not_int_5_2: "\<not> (\<exists>k::int. (5 / 2 :: rat) = of_int k \<and> 1 \<le> k \<and> k \<le> 10)"
proof
  assume "\<exists>k::int. (5 / 2 :: rat) = of_int k \<and> 1 \<le> k \<and> k \<le> 10"
  then obtain k :: int where "(5 / 2 :: rat) = of_int k" by blast
  then have "(of_int (2 * k) :: rat) = of_int 5" by simp
  then have "2 * k = 5" by (simp only: of_int_eq_iff)
  then show False by presburger
qed

theorem C5_validateSignalValue_bounds_witness:
  "(\<exists>y. validateSignalValue (JNum (Fin 0)) (JStr ''SLEEP'') = Ok y)
   \<and> (\<exists>y. validateSignalValue (JNum (Fin (1 / 4))) (JStr ''SLEEP'') = Ok y)
   \<and> (\<exists>y. validateSignalValue (JNum (Fin 14)) (JStr ''SLEEP'') = Ok y)
   \<and> validateSignalValue (JNum (Fin 15)) (JStr ''SLEEP'') = Err ''Sleep hours can't exceed 14''
   \<and> validateSignalValue (JNum (Fin (73 / 10))) (JStr ''SLEEP'')
       = Err ''Sleep hours must be in 0.25-hour increments (7.25, 7.50, 7.75, etc.)''
   \<and> validateSignalValue (JNum (Fin (- 1 / 4))) (JStr ''SLEEP'')
       = Err ''Sleep hours must be in 0.25-hour increments (7.25, 7.50, 7.75, etc.)''
   \<and> (\<exists>y. validateSignalValue (JNum (Fin 1)) (JStr ''WELLBEING'') = Ok y)
   \<and> (\<exists>y. validateSignalValue (JNum (Fin 10)) (JStr ''WELLBEING'') = Ok y)
   \<and> validateSignalValue (JNum (Fin 0)) (JStr ''WELLBEING'')
       = Err ''Wellbeing must be a whole number between 1 and 10''
   \<and> validateSignalValue (JNum (Fin 11)) (JStr ''WELLBEING'')
       = Err ''Wellbeing must be a whole number between 1 and 10''
   \<and> validateSignalValue (JNum (Fin (5 / 2))) (JStr ''WELLBEING'')
       = Err ''Wellbeing must be a whole number between 1 and 10''
   \<and> validateSignalValue (JNum NaN) (JStr ''WELLBEING'')
       = Err ''Signal value must be a valid number''
   \<and> validateSignalValue (JNum NegInf) (JStr ''SLEEP'')
       = Err ''Signal value must be a valid number''
   \<and> validateSignalValue (JStr ''8'') (JStr ''SLEEP'') = Err ''Signal value is required''"
proof -
  note C5 = C5_validateSignalValue_bounds
  have s0: "\<exists>k::int. (0::rat) * 4 = of_int k" by (rule exI [of _ 0]) simp
  have s1: "\<exists>k::int. (1 / 4 :: rat) * 4 = of_int k" by (rule exI [of _ 1]) simp
  have s14: "\<exists>k::int. (14::rat) * 4 = of_int k" by (rule exI [of _ 56]) simp
  have w1: "\<exists>k::int. JNum (Fin 1) = JNum (Fin (of_int k)) \<and> 1 \<le> k \<and> k \<le> 10"
    by (rule exI [of _ 1]) simp
  have w10: "\<exists>k::int. JNum (Fin 10) = JNum (Fin (of_int k)) \<and> 1 \<le> k \<and> k \<le> 10"
    by (rule exI [of _ 10]) simp
  have n0: "\<not> (\<exists>k::int. (0::rat) = of_int k \<and> 1 \<le> k \<and> k \<le> 10)" by auto
  have n11: "\<not> (\<exists>k::int. (11::rat) = of_int k \<and> 1 \<le> k \<and> k \<le> 10)"
  proof
    assume "\<exists>k::int. (11::rat) = of_int k \<and> 1 \<le> k \<and> k \<le> 10"
    then obtain k :: int where "(of_int 11 :: rat) = of_int k" and "k \<le> 10" by auto
    then show False by (simp only: of_int_eq_iff)
  qed
  note sleepOk = C5 [THEN conjunct1, THEN spec, THEN iffD2]
  note sleepMax = C5 [THEN conjunct2, THEN conjunct1, THEN spec, THEN mp]
  note sleepStep = C5 [THEN conjunct2, THEN conjunct2, THEN conjunct1, THEN spec, THEN mp]
  note wellOk = C5 [THEN conjunct2, THEN conjunct2, THEN conjunct2, THEN conjunct1, THEN spec,
    THEN iffD2]
  note wellBad = C5 [THEN conjunct2, THEN conjunct2, THEN conjunct2, THEN conjunct2,
    THEN conjunct1, THEN spec, THEN mp]
  note notFinite = C5 [THEN conjunct2, THEN conjunct2, THEN conjunct2, THEN conjunct2,
    THEN conjunct2, THEN conjunct1, THEN spec, THEN spec, THEN mp]
  note notNumber = C5 [THEN conjunct2, THEN conjunct2, THEN conjunct2, THEN conjunct2,
    THEN conjunct2, THEN conjunct2, THEN spec, THEN spec, THEN mp]
  have a0: "\<exists>y. validateSignalValue (JNum (Fin 0)) (JStr ''SLEEP'') = Ok y"
    by (rule sleepOk, rule exI [of _ 0]) (use s0 in simp)
  have a1: "\<exists>y. validateSignalValue (JNum (Fin (1 / 4))) (JStr ''SLEEP'') = Ok y"
    by (rule sleepOk, rule exI [of _ "1 / 4"]) (use s1 in simp)
  have a14: "\<exists>y. validateSignalValue (JNum (Fin 14)) (JStr ''SLEEP'') = Ok y"
    by (rule sleepOk, rule exI [of _ 14]) (use s14 in simp)
  have b15: "validateSignalValue (JNum (Fin 15)) (JStr ''SLEEP'') = Err ''Sleep hours can't exceed 14''"
    by (rule sleepMax) simp
  have b73: "validateSignalValue (JNum (Fin (73 / 10))) (JStr ''SLEEP'')
       = Err ''Sleep hours must be in 0.25-hour increments (7.25, 7.50, 7.75, etc.)''"
    by (rule sleepStep, rule disjI2) (use not_quarter_73_10 in simp)
  have bneg: "validateSignalValue (JNum (Fin (- 1 / 4))) (JStr ''SLEEP'')
       = Err ''Sleep hours must be in 0.25-hour increments (7.25, 7.50, 7.75, etc.)''"
    by (rule sleepStep, rule disjI1) simp
  have c1: "\<exists>y. validateSignalValue (JNum (Fin 1)) (JStr ''WELLBEING'') = Ok y"
    by (rule wellOk) (rule w1)
  have c10: "\<exists>y. validateSignalValue (JNum (Fin 10)) (JStr ''WELLBEING'') = Ok y"
    by (rule wellOk) (rule w10)
  have d0: "validateSignalValue (JNum (Fin 0)) (JStr ''WELLBEING'')
       = Err ''Wellbeing must be a whole number between 1 and 10''"
    by (rule wellBad) (rule n0)
  have d11: "validateSignalValue (JNum (Fin 11)) (JStr ''WELLBEING'')
       = Err ''Wellbeing must be a whole number between 1 and 10''"
    by (rule wellBad) (rule n11)
  have d52: "validateSignalValue (JNum (Fin (5 / 2))) (JStr ''WELLBEING'')
       = Err ''Wellbeing must be a whole number between 1 and 10''"
    by (rule wellBad) (rule not_int_5_2)
  have e1: "validateSignalValue (JNum NaN) (JStr ''WELLBEING'')
       = Err ''Signal value must be a valid number''"
    by (rule notFinite) simp
  have e2: "validateSignalValue (JNum NegInf) (JStr ''SLEEP'')
       = Err ''Signal value must be a valid number''"
    by (rule notFinite) simp
  have e3: "validateSignalValue (JStr ''8'') (JStr ''SLEEP'') = Err ''Signal value is required''"
    by (rule notNumber) simp
  from a0 a1 a14 b15 b73 bneg c1 c10 d0 d11 d52 e1 e2 e3 show ?thesis by (intro conjI)
qed

text \<open>The claim C5 as stated fails outside the finite numbers. \<open>Infinity\<close> is strictly
  greater than 14, yet for SLEEP it does not get the upper-bound message; \<open>-Infinity\<close> is
  negative, yet it does not get the increment message; and \<open>NaN\<close> and \<open>Infinity\<close> are not
  integers, yet for WELLBEING they do not get the combined message. All four get the
  message of the finiteness test, which comes before the type is looked at.\<close>

theorem C5_validateSignalValue_counterexample:
  "validateSignalValue (JNum PosInf) (JStr ''SLEEP'') = Err ''Signal value must be a valid number''
   \<and> validateSignalValue (JNum PosInf) (JStr ''SLEEP'') \<noteq> Err ''Sleep hours can't exceed 14''
   \<and> validateSignalValue (JNum NegInf) (JStr ''SLEEP'') = Err ''Signal value must be a valid number''
   \<and> validateSignalValue (JNum NegInf) (JStr ''SLEEP'')
       \<noteq> Err ''Sleep hours must be in 0.25-hour increments (7.25, 7.50, 7.75, etc.)''
   \<and> validateSignalValue (JNum NaN) (JStr ''WELLBEING'') = Err ''Signal value must be a valid number''
   \<and> validateSignalValue (JNum NaN) (JStr ''WELLBEING'')
       \<noteq> Err ''Wellbeing must be a whole number between 1 and 10''
   \<and> validateSignalValue (JNum PosInf) (JStr ''WELLBEING'')
       = Err ''Signal value must be a valid number''
   \<and> validateSignalValue (JNum PosInf) (JStr ''WELLBEING'')
       \<noteq> Err ''Wellbeing must be a whole number between 1 and 10''"
  by (simp add: validateSignalValue_def msgSignalValueNotNumber_def)

section \<open>Goal creation scenario\<close>

text \<open>C7. In create mode, \<open>validateGoalInput\<close> on the input with title
  \<open>"  Learn Spanish  "\<close>, horizon \<open>"YEAR"\<close> and status \<open>"active"\<close> returns the data
  object with the trimmed title, the horizon and the status as given, and \<open>null\<close> for
  description, targetDate and lifeAreaId.\<close>

theorem C7_validateGoalInput_create_scenario:
  "validateGoalInput
     ((\<lambda>k. JUndefined)(''title'' := JStr ''  Learn Spanish  '', ''horizon'' := JStr ''YEAR'',
        ''status'' := JStr ''active'')) False
   = Ok [(''title'', JStr ''Learn Spanish''), (''description'', JNull),
         (''horizon'', JStr ''YEAR''), (''status'', JStr ''active''),
         (''targetDate'', JNull), (''lifeAreaId'', JNull)]"
  by code_simp

theorem C7_validateGoalInput_create_scenario_witness:
  "\<exists>data. validateGoalInput
       ((\<lambda>k. JUndefined)(''title'' := JStr ''  Learn Spanish  '', ''horizon'' := JStr ''YEAR'',
          ''status'' := JStr ''active'')) False = Ok data
     \<and> getProp data ''title'' = JStr ''Learn Spanish''
     \<and> getProp data ''description'' = JNull
     \<and> getProp data ''targetDate'' = JNull
     \<and> getProp data ''lifeAreaId'' = JNull
     \<and> map fst data = [''title'', ''description'', ''horizon'', ''status'', ''targetDate'',
          ''lifeAreaId'']"
  using C7_validateGoalInput_create_scenario by (simp add: getProp_def)

section \<open>Error mapper\<close>

text \<open>C8. The error \<open>{code: "P2002", meta: {target: ["userId", "nameNorm"]}}\<close> maps, with
  the context's \<open>lifeAreaName\<close> being \<open>"Health"\<close>, to
  \<open>You already have a life area named 'Health'\<close>; with no context, or with a context
  that has no \<open>lifeAreaName\<close>, to \<open>You already have a life area named 'that name'\<close>.\<close>

theorem C8_mapDbErrorToUserCopy_life_area_duplicate:
  "mapDbErrorToUserCopy toStr
     (JObj [(''code'', JStr ''P2002''),
            (''meta'', JObj [(''target'', JArr [JStr ''userId'', JStr ''nameNorm''])])])
     (Some \<lparr>title = t, weekStart = w, lifeAreaName = Some ''Health''\<rparr>)
     = ''You already have a life area named '' @ [CHR 0x27] @ ''Health'' @ [CHR 0x27]
   \<and> mapDbErrorToUserCopy toStr
     (JObj [(''code'', JStr ''P2002''),
            (''meta'', JObj [(''target'', JArr [JStr ''userId'', JStr ''nameNorm''])])])
     None
     = ''You already have a life area named '' @ [CHR 0x27] @ ''that name'' @ [CHR 0x27]
   \<and> mapDbErrorToUserCopy toStr
     (JObj [(''code'', JStr ''P2002''),
            (''meta'', JObj [(''target'', JArr [JStr ''userId'', JStr ''nameNorm''])])])
     (Some \<lparr>title = t, weekStart = w, lifeAreaName = None\<rparr>)
     = ''You already have a life area named '' @ [CHR 0x27] @ ''that name'' @ [CHR 0x27]"
  by code_simp

theorem C8_mapDbErrorToUserCopy_life_area_duplicate_witness:
  "mapDbErrorToUserCopy (\<lambda>v. [])
     (JObj [(''code'', JStr ''P2002''),
            (''meta'', JObj [(''target'', JArr [JStr ''userId'', JStr ''nameNorm''])])])
     (Some \<lparr>title = None, weekStart = None, lifeAreaName = Some ''Health''\<rparr>)
     = ''You already have a life area named '' @ [CHR 0x27] @ ''Health'' @ [CHR 0x27]"
  using C8_mapDbErrorToUserCopy_life_area_duplicate [of "\<lambda>v. []" None None] by simp

lemma mapNamedConstraint_generic:
  "\<not> namedIn uniqueConstraintNames c \<Longrightarrow> mapNamedConstraint c ctx = msgGeneric"
  by (cases c) (auto simp: mapNamedConstraint_def namedIn_def uniqueConstraintNames_def)

lemma mapCheckConstraint_generic:
  "\<not> namedIn checkConstraintNames c \<Longrightarrow> mapCheckConstraint c = msgGeneric"
  by (cases c) (auto simp: mapCheckConstraint_def namedIn_def checkConstraintNames_def)

lemma mapUniqueConstraint_generic:
  "cols \<notin> set uniqueTargets \<Longrightarrow> mapUniqueConstraint cols ctx = msgGeneric"
  by (auto simp: mapUniqueConstraint_def uniqueTargets_def)

text \<open>C9. \<open>mapDbErrorToUserCopy\<close> returns the generic fallback for every falsy input
  (\<open>null\<close>, \<open>undefined\<close>) and every input that is not an object, and for every error
  that has none of the recognised shapes: no input outside the recognised unique-violation
  and check-violation shapes maps to a specific message.\<close>

theorem C9_mapDbErrorToUserCopy_fallback:
  "(falsy err \<or> \<not> typeofObject err \<longrightarrow>
      mapDbErrorToUserCopy toStr err ctx = ''Something went wrong. Please try again.'')
   \<and> (\<not> recognizedShape toStr err \<longrightarrow>
      mapDbErrorToUserCopy toStr err ctx = ''Something went wrong. Please try again.'')"
proof (intro conjI impI)
  assume "falsy err \<or> \<not> typeofObject err"
  then show "mapDbErrorToUserCopy toStr err ctx = ''Something went wrong. Please try again.''"
    by (simp add: mapDbErrorToUserCopy_def msgGeneric_def)
next
  assume unrecognized: "\<not> recognizedShape toStr err"
  have "mapDbErrorToUserCopy toStr err ctx = msgGeneric"
    using unrecognized unfolding mapDbErrorToUserCopy_def recognizedShape_def Let_def
    by (simp add: mapNamedConstraint_generic mapCheckConstraint_generic
        mapUniqueConstraint_generic)
  then show "mapDbErrorToUserCopy toStr err ctx = ''Something went wrong. Please try again.''"
    by (simp add: msgGeneric_def)
qed

theorem C9_mapDbErrorToUserCopy_fallback_witness:
  "mapDbErrorToUserCopy (\<lambda>v. []) JNull None = ''Something went wrong. Please try again.''
   \<and> mapDbErrorToUserCopy (\<lambda>v. []) JUndefined None = ''Something went wrong. Please try again.''
   \<and> mapDbErrorToUserCopy (\<lambda>v. []) (JStr ''boom'') None
        = ''Something went wrong. Please try again.''
   \<and> mapDbErrorToUserCopy (\<lambda>v. []) (JObj [(''code'', JStr ''UNKNOWN'')]) None
        = ''Something went wrong. Please try again.''
   \<and> mapDbErrorToUserCopy (\<lambda>v. [])
        (JObj [(''code'', JStr ''P2002''), (''meta'', JObj [(''target'', JArr [JStr ''email''])])])
        None = ''Something went wrong. Please try again.''
   \<and> mapDbErrorToUserCopy (\<lambda>v. [])
        (JObj [(''code'', JStr ''23505''), (''constraint'', JStr ''chk_signal_sleep_bounds'')])
        None = ''Something went wrong. Please try again.''"
proof -
  have f1: "falsy JNull \<or> \<not> typeofObject JNull" by simp
  have f2: "falsy JUndefined \<or> \<not> typeofObject JUndefined" by simp
  have f3: "falsy (JStr ''boom'') \<or> \<not> typeofObject (JStr ''boom'')"
    by (simp add: typeofObject_def)
  have u1: "\<not> recognizedShape (\<lambda>v. []) (JObj [(''code'', JStr ''UNKNOWN'')])"
    by code_simp
  have u2: "\<not> recognizedShape (\<lambda>v. [])
       (JObj [(''code'', JStr ''P2002''), (''meta'', JObj [(''target'', JArr [JStr ''email''])])])"
    by code_simp
  have u3: "\<not> recognizedShape (\<lambda>v. [])
       (JObj [(''code'', JStr ''23505''), (''constraint'', JStr ''chk_signal_sleep_bounds'')])"
    by code_simp
  note fallback = C9_mapDbErrorToUserCopy_fallback
  show ?thesis
    using fallback [THEN conjunct1, THEN mp, OF f1] fallback [THEN conjunct1, THEN mp, OF f2]
      fallback [THEN conjunct1, THEN mp, OF f3] fallback [THEN conjunct2, THEN mp, OF u1]
      fallback [THEN conjunct2, THEN mp, OF u2] fallback [THEN conjunct2, THEN mp, OF u3]
    by (intro conjI)
qed

section \<open>Optional identifiers\<close>

lemma processDays_update:
  "k \<notin> set ds \<Longrightarrow> processDays (input(k := g)) partial ds = processDays input partial ds"
proof (induction ds)
  case Nil
  show ?case by simp
next
  case (Cons day rest)
  from Cons.prems have "day \<noteq> k" and "k \<notin> set rest" by auto
  from \<open>day \<noteq> k\<close> have same: "(input(k := g)) day = input day" by simp
  from Cons.IH [OF \<open>k \<notin> set rest\<close>] show ?case
    by (simp only: processDays.simps same)
qed

lemma processDays_no_key:
  "processDays input partial ds = Ok dayValues \<Longrightarrow> k \<notin> set ds \<Longrightarrow> \<not> hasProp dayValues k"
proof (induction ds arbitrary: dayValues)
  case Nil
  then show ?case by (simp add: hasProp_def)
next
  case (Cons day rest)
  then show ?case
    by (auto simp: obind_def hasProp_def split: if_splits jsval.splits outcome.splits)
qed

lemma goalId_not_day: "''goalId'' \<notin> set days"
  by (simp add: days_def)

lemma getProp_append_new: "\<not> hasProp pre k \<Longrightarrow> getProp (pre @ [(k, v)]) k = v"
  by (simp add: getProp_def hasProp_def map_add_def)

lemma hasProp_append: "hasProp (xs @ ys) k \<longleftrightarrow> hasProp xs k \<or> hasProp ys k"
  by (auto simp: hasProp_def)

lemma hasProp_simps:
  "hasProp [] k = False"
  "hasProp ((a, v) # xs) k = (a = k \<or> hasProp xs k)"
  by (auto simp: hasProp_def)

lemma processOptionalId_cases:
  "processOptionalId JUndefined = Ok JNull"
  "processOptionalId JNull = Ok JNull"
  "processOptionalId (JStr s) = Ok (if trim s = [] then JNull else JStr (trim s))"
  by (simp_all add: processOptionalId_def)

lemma processOptionalId_not_Err: "processOptionalId g \<noteq> Err e"
  by (cases g) (simp_all add: processOptionalId_def)

lemma processOptionalId_not_undefined: "processOptionalId g \<noteq> Ok JUndefined"
  by (cases g) (simp_all add: processOptionalId_def)

lemma obind_simps:
  "obind (Ok x) f = f x"
  "obind (Err e) f = Err e"
  "obind TypeError f = TypeError"
  by (simp_all add: obind_def)

lemma obind_assoc: "obind (obind m f) k = obind m (\<lambda>x. obind (f x) k)"
  by (cases m) (simp_all add: obind_def)

lemma obind_if: "obind (if c then a else b) k = (if c then obind a k else obind b k)"
  by simp

lemma obind_Ok_inv: "obind m f = Ok y \<Longrightarrow> \<exists>x. m = Ok x \<and> f x = Ok y"
  by (cases m) (simp_all add: obind_def)

lemma validateWeeklyTaskInput_shape:
  "\<exists>H. (\<forall>g. validateWeeklyTaskInput lz (input(''goalId'' := g)) partial =
            obind H (\<lambda>pre. obind (processOptionalId g) (\<lambda>goalId.
              Ok (if partial \<and> g = JUndefined then pre else pre @ [(''goalId'', goalId)]))))
       \<and> (\<forall>pre. H = Ok pre \<longrightarrow> \<not> hasProp pre ''goalId'')"
proof -
  define W where "W = (if \<not> partial \<or> input ''weekStart'' \<noteq> JUndefined
            then obind (validateWeekStart lz (input ''weekStart'')) (\<lambda>w. Ok (JDate w))
            else Ok JUndefined)"
  define D where "D = processDays input partial days"
  define B where "B = (\<lambda>title weekStart dayValues.
        if \<not> partial then
           [(''title'', title), (''weekStart'', weekStart),
            (''monday'', getProp dayValues ''monday''),
            (''tuesday'', getProp dayValues ''tuesday''),
            (''wednesday'', getProp dayValues ''wednesday''),
            (''thursday'', getProp dayValues ''thursday''),
            (''friday'', getProp dayValues ''friday''),
            (''saturday'', getProp dayValues ''saturday''),
            (''sunday'', getProp dayValues ''sunday'')]
         else
           (if title \<noteq> JUndefined then [(''title'', title)] else [])
           @ (if weekStart \<noteq> JUndefined then [(''weekStart'', weekStart)] else [])
           @ dayValues)"
  define H where "H =
     obind (trimField (input ''title'')) (\<lambda>title.
     if (\<not> partial \<or> input ''title'' \<noteq> JUndefined) \<and> falsy title
       then Err msgTaskTitleEmpty
     else if (\<not> partial \<or> input ''title'' \<noteq> JUndefined) \<and> strLength title > 80
       then Err msgTaskTitleTooLong
     else obind W (\<lambda>weekStart. obind D (\<lambda>dayValues. Ok (B title weekStart dayValues))))"
  have eq: "validateWeeklyTaskInput lz (input(''goalId'' := g)) partial =
            obind H (\<lambda>pre. obind (processOptionalId g) (\<lambda>goalId.
              Ok (if partial \<and> g = JUndefined then pre else pre @ [(''goalId'', goalId)])))" for g
  proof (cases partial)
    case True
    show ?thesis
    proof (cases "g = JUndefined")
      case True
      with \<open>partial\<close> show ?thesis
        unfolding validateWeeklyTaskInput_def H_def W_def D_def B_def
        by (simp add: processDays_update goalId_not_day obind_simps obind_assoc obind_if
            processOptionalId_cases cong: if_cong)
    next
      case False
      with \<open>partial\<close> show ?thesis
        unfolding validateWeeklyTaskInput_def H_def W_def D_def B_def
        by (simp add: processDays_update goalId_not_day obind_simps obind_assoc obind_if
            cong: if_cong)
    qed
  next
    case False
    then show ?thesis
      unfolding validateWeeklyTaskInput_def H_def W_def D_def B_def
      by (simp add: processDays_update goalId_not_day obind_simps obind_assoc obind_if
          cong: if_cong)
  qed
  have nk: "\<not> hasProp pre ''goalId''" if "H = Ok pre" for pre
  proof -
    from that obtain title weekStart dayValues where
      d: "D = Ok dayValues" and p: "pre = B title weekStart dayValues"
      unfolding H_def by (auto dest!: obind_Ok_inv split: if_splits)
    from d have "\<not> hasProp dayValues ''goalId''"
      unfolding D_def using processDays_no_key goalId_not_day by blast
    with p show ?thesis
      unfolding B_def by (auto simp: hasProp_simps hasProp_append split: if_splits)
  qed
  from eq nk show ?thesis by blast
qed

lemma filter_six:
  "filter P [a, b, c, d, e, x] = filter P [a, b, c, d, e] @ (if P x then [x] else [])"
  by simp

lemma hasProp_filter: "\<not> hasProp xs k \<Longrightarrow> \<not> hasProp (filter P xs) k"
  by (induction xs) (auto simp: hasProp_def)

lemma goal_reads:
  "(input(''lifeAreaId'' := g)) ''title'' = input ''title''"
  "(input(''lifeAreaId'' := g)) ''description'' = input ''description''"
  "(input(''lifeAreaId'' := g)) ''horizon'' = input ''horizon''"
  "(input(''lifeAreaId'' := g)) ''status'' = input ''status''"
  "(input(''lifeAreaId'' := g)) ''targetDate'' = input ''targetDate''"
  "(input(''lifeAreaId'' := g)) ''lifeAreaId'' = g"
  by simp_all

lemma validateGoalInput_shape:
  "\<exists>H. (\<forall>g. validateGoalInput (input(''lifeAreaId'' := g)) partial =
            obind H (\<lambda>pre. obind (processOptionalId g) (\<lambda>lifeAreaId.
              Ok (if partial \<and> g = JUndefined then pre
                  else pre @ [(''lifeAreaId'', lifeAreaId)]))))
       \<and> (\<forall>pre. H = Ok pre \<longrightarrow> \<not> hasProp pre ''lifeAreaId'')"
proof -
  define Hz where "Hz = (if \<not> partial \<or> input ''horizon'' \<noteq> JUndefined then
              (if falsy (input ''horizon'') \<or> \<not> arrayIncludes VALID_HORIZONS (input ''horizon'')
                 then Err msgHorizonOneOf
               else Ok (input ''horizon''))
            else Ok (JStr []))"
  define St where "St = (if \<not> partial \<or> input ''status'' \<noteq> JUndefined then
              (if falsy (input ''status'') \<or> \<not> arrayIncludes VALID_STATUSES (input ''status'')
                 then Err msgStatusOneOf
               else Ok (input ''status''))
            else Ok (JStr []))"
  define Td where "Td = processTargetDate (input ''targetDate'')"
  define B where "B = (\<lambda>title description horizon status targetDate.
      let data =
        [(''title'', title),
         (''description'',
            if partial \<and> input ''description'' = JUndefined then JUndefined else description),
         (''horizon'', orUndefined horizon),
         (''status'', orUndefined status),
         (''targetDate'',
            if partial \<and> input ''targetDate'' = JUndefined then JUndefined else targetDate)]
      in if partial then filter (\<lambda>kv. snd kv \<noteq> JUndefined) data else data)"
  define H where "H =
     obind (trimField (input ''title'')) (\<lambda>title.
     if (\<not> partial \<or> input ''title'' \<noteq> JUndefined) \<and> falsy title
       then Err msgGoalTitleEmpty
     else if (\<not> partial \<or> input ''title'' \<noteq> JUndefined) \<and> strLength title > 100
       then Err msgGoalTitleTooLong
     else
     obind (trimField (input ''description'')) (\<lambda>description.
     if input ''description'' \<noteq> JUndefined \<and> input ''description'' \<noteq> JNull
        \<and> description = JNull
       then Err msgDescriptionEmpty
     else if \<not> falsy description \<and> strLength description > 1000
       then Err msgDescriptionTooLong
     else
     obind Hz (\<lambda>horizon. obind St (\<lambda>status. obind Td (\<lambda>targetDate.
       Ok (B title description horizon status targetDate))))))"
  have raw: "validateGoalInput (input(''lifeAreaId'' := g)) partial =
     obind (trimField (input ''title'')) (\<lambda>title.
     if (\<not> partial \<or> input ''title'' \<noteq> JUndefined) \<and> falsy title
       then Err msgGoalTitleEmpty
     else if (\<not> partial \<or> input ''title'' \<noteq> JUndefined) \<and> strLength title > 100
       then Err msgGoalTitleTooLong
     else
     obind (trimField (input ''description'')) (\<lambda>description.
     if input ''description'' \<noteq> JUndefined \<and> input ''description'' \<noteq> JNull
        \<and> description = JNull
       then Err msgDescriptionEmpty
     else if \<not> falsy description \<and> strLength description > 1000
       then Err msgDescriptionTooLong
     else
     obind Hz (\<lambda>horizon. obind St (\<lambda>status. obind Td (\<lambda>targetDate.
     obind (processOptionalId g) (\<lambda>lifeAreaId.
     (let data =
        [(''title'', title),
         (''description'',
            if partial \<and> input ''description'' = JUndefined then JUndefined else description),
         (''horizon'', orUndefined horizon),
         (''status'', orUndefined status),
         (''targetDate'',
            if partial \<and> input ''targetDate'' = JUndefined then JUndefined else targetDate),
         (''lifeAreaId'',
            if partial \<and> g = JUndefined then JUndefined else lifeAreaId)]
      in Ok (if partial then filter (\<lambda>kv. snd kv \<noteq> JUndefined) data else data))))))))" for g
    unfolding validateGoalInput_def Hz_def St_def Td_def goal_reads by (rule refl)
  have eq: "validateGoalInput (input(''lifeAreaId'' := g)) partial =
            obind H (\<lambda>pre. obind (processOptionalId g) (\<lambda>lifeAreaId.
              Ok (if partial \<and> g = JUndefined then pre
                  else pre @ [(''lifeAreaId'', lifeAreaId)])))" for g
  proof (cases partial)
    case True
    show ?thesis
    proof (cases "g = JUndefined")
      case True
      with \<open>partial\<close> show ?thesis
        unfolding raw H_def B_def
        by (simp add: obind_simps obind_assoc obind_if processOptionalId_cases Let_def
            filter_six del: filter.simps cong: if_cong)
    next
      case False
      note g = this
      show ?thesis
      proof (cases "processOptionalId g")
        case (Ok v)
        then have "v \<noteq> JUndefined" using processOptionalId_not_undefined by blast
        with \<open>partial\<close> g show ?thesis
          unfolding raw H_def B_def
          by (simp add: obind_simps obind_assoc obind_if Ok Let_def
              filter_six del: filter.simps cong: if_cong)
      next
        case (Err e)
        then show ?thesis using processOptionalId_not_Err by blast
      next
        case TypeError
        with \<open>partial\<close> g show ?thesis
          unfolding raw H_def B_def
          by (simp add: obind_simps obind_assoc obind_if Let_def cong: if_cong)
      qed
    qed
  next
    case False
    then show ?thesis
      unfolding raw H_def B_def
      by (simp add: obind_simps obind_assoc obind_if Let_def cong: if_cong)
  qed
  have nk: "\<not> hasProp pre ''lifeAreaId''" if "H = Ok pre" for pre
  proof -
    from that obtain title description horizon status targetDate where
      p: "pre = B title description horizon status targetDate"
      unfolding H_def by (auto dest!: obind_Ok_inv split: if_splits)
    show ?thesis
      unfolding p B_def Let_def
      by (cases partial) (simp_all add: hasProp_simps hasProp_filter del: filter.simps)
  qed
  from eq nk show ?thesis by blast
qed

text \<open>What follows for any validator of this shape: the identifier is read last, after the
  part \<open>H\<close> that does not depend on it, and is appended under the key \<open>k\<close>.\<close>

lemma optional_id_last:
  assumes eq: "\<And>g. V g = obind H (\<lambda>pre. obind (processOptionalId g) (\<lambda>v.
                 Ok (if partial \<and> g = JUndefined then pre else pre @ [(k, v)])))"
    and nk: "\<And>pre. H = Ok pre \<Longrightarrow> \<not> hasProp pre k"
  shows "V g = Err e \<longleftrightarrow> H = Err e"
    and "processOptionalId g = Ok v \<Longrightarrow> (\<exists>d. V g = Ok d) \<longleftrightarrow> (\<exists>pre. H = Ok pre)"
    and "processOptionalId g = Ok v \<Longrightarrow> g \<noteq> JUndefined \<Longrightarrow> V g = Ok d \<Longrightarrow> getProp d k = v"
proof -
  show "V g = Err e \<longleftrightarrow> H = Err e"
    unfolding eq [of g]
    by (cases H; cases "processOptionalId g")
       (simp_all add: obind_simps processOptionalId_not_Err)
  show "(\<exists>d. V g = Ok d) \<longleftrightarrow> (\<exists>pre. H = Ok pre)" if "processOptionalId g = Ok v"
    unfolding eq [of g] using that by (cases H) (simp_all add: obind_simps)
  show "getProp d k = v" if "processOptionalId g = Ok v" "g \<noteq> JUndefined" "V g = Ok d"
  proof (cases H)
    case (Ok pre)
    with that have "d = pre @ [(k, v)]"
      unfolding eq [of g] by (simp add: obind_simps)
    with nk [OF Ok] show ?thesis by (simp add: getProp_append_new)
  next
    case (Err e')
    with that show ?thesis unfolding eq [of g] by (simp add: obind_simps)
  next
    case TypeError
    with that show ?thesis unfolding eq [of g] by (simp add: obind_simps)
  qed
qed

text \<open>C10. The fields \<open>goalId\<close> of \<open>validateWeeklyTaskInput\<close> and \<open>lifeAreaId\<close> of
  \<open>validateGoalInput\<close>: supplied as \<open>null\<close> or as a blank string, the validator succeeds
  whenever it succeeds without the field, and the output field is \<open>null\<close>; supplied as any
  other string, likewise with the trimmed string in the output; and whatever value is
  supplied, the validator returns \<open>{ok: false}\<close> with a message only if it returns the same
  message without the field.\<close>

theorem C10_optional_ids_normalised:
  "(\<forall>g e. validateWeeklyTaskInput lz (input(''goalId'' := g)) partial = Err e \<longrightarrow>
           validateWeeklyTaskInput lz (input(''goalId'' := JUndefined)) partial = Err e)
   \<and> (\<forall>g. g = JNull \<or> (\<exists>s. g = JStr s) \<longrightarrow>
         (\<exists>d0. validateWeeklyTaskInput lz (input(''goalId'' := JUndefined)) partial = Ok d0) \<longrightarrow>
         (\<exists>d. validateWeeklyTaskInput lz (input(''goalId'' := g)) partial = Ok d
              \<and> getProp d ''goalId'' =
                  (case g of JStr s \<Rightarrow> if trim s = [] then JNull else JStr (trim s)
                   | _ \<Rightarrow> JNull)))
   \<and> (\<forall>g e. validateGoalInput (input(''lifeAreaId'' := g)) partial = Err e \<longrightarrow>
           validateGoalInput (input(''lifeAreaId'' := JUndefined)) partial = Err e)
   \<and> (\<forall>g. g = JNull \<or> (\<exists>s. g = JStr s) \<longrightarrow>
         (\<exists>d0. validateGoalInput (input(''lifeAreaId'' := JUndefined)) partial = Ok d0) \<longrightarrow>
         (\<exists>d. validateGoalInput (input(''lifeAreaId'' := g)) partial = Ok d
              \<and> getProp d ''lifeAreaId'' =
                  (case g of JStr s \<Rightarrow> if trim s = [] then JNull else JStr (trim s)
                   | _ \<Rightarrow> JNull)))"
proof -
  have general:
    "(\<forall>g e. V g = Err e \<longrightarrow> V JUndefined = Err e)
     \<and> (\<forall>g. g = JNull \<or> (\<exists>s. g = JStr s) \<longrightarrow> (\<exists>d0. V JUndefined = Ok d0) \<longrightarrow>
           (\<exists>d. V g = Ok d \<and> getProp d k =
                  (case g of JStr s \<Rightarrow> if trim s = [] then JNull else JStr (trim s)
                   | _ \<Rightarrow> JNull)))"
    if eq: "\<And>g. V g = obind H (\<lambda>pre. obind (processOptionalId g) (\<lambda>v.
                 Ok (if partial \<and> g = JUndefined then pre else pre @ [(k, v)])))"
      and nk: "\<And>pre. H = Ok pre \<Longrightarrow> \<not> hasProp pre k"
    for V :: "jsval \<Rightarrow> jsobject outcome" and H k
  proof (intro conjI allI impI)
    fix g e
    assume "V g = Err e"
    then show "V JUndefined = Err e"
      using optional_id_last(1) [of V H partial k, OF eq nk] by blast
  next
    fix g
    assume supplied: "g = JNull \<or> (\<exists>s. g = JStr s)" and ok0: "\<exists>d0. V JUndefined = Ok d0"
    define v where "v = (case g of JStr s \<Rightarrow> if trim s = [] then JNull else JStr (trim s)
                   | _ \<Rightarrow> JNull)"
    from supplied have pg: "processOptionalId g = Ok v" and g: "g \<noteq> JUndefined"
      by (auto simp: v_def processOptionalId_cases)
    from ok0 have "\<exists>pre. H = Ok pre"
      using optional_id_last(2) [of V H partial k JUndefined JNull, OF eq nk]
      by (simp add: processOptionalId_cases)
    then obtain d where d: "V g = Ok d"
      using optional_id_last(2) [of V H partial k g v, OF eq nk pg] by blast
    then have "getProp d k = v"
      using optional_id_last(3) [of V H partial k g v d, OF eq nk pg g] by blast
    with d show "\<exists>d. V g = Ok d \<and> getProp d k =
                  (case g of JStr s \<Rightarrow> if trim s = [] then JNull else JStr (trim s)
                   | _ \<Rightarrow> JNull)"
      unfolding v_def by blast
  qed
  obtain Ht where
    teq: "\<And>g. validateWeeklyTaskInput lz (input(''goalId'' := g)) partial =
            obind Ht (\<lambda>pre. obind (processOptionalId g) (\<lambda>goalId.
              Ok (if partial \<and> g = JUndefined then pre else pre @ [(''goalId'', goalId)])))"
    and tnk: "\<And>pre. Ht = Ok pre \<Longrightarrow> \<not> hasProp pre ''goalId''"
    using validateWeeklyTaskInput_shape [of lz input partial] by blast
  have task: "(\<forall>g e. validateWeeklyTaskInput lz (input(''goalId'' := g)) partial = Err e \<longrightarrow>
           validateWeeklyTaskInput lz (input(''goalId'' := JUndefined)) partial = Err e)
   \<and> (\<forall>g. g = JNull \<or> (\<exists>s. g = JStr s) \<longrightarrow>
         (\<exists>d0. validateWeeklyTaskInput lz (input(''goalId'' := JUndefined)) partial = Ok d0) \<longrightarrow>
         (\<exists>d. validateWeeklyTaskInput lz (input(''goalId'' := g)) partial = Ok d
              \<and> getProp d ''goalId'' =
                  (case g of JStr s \<Rightarrow> if trim s = [] then JNull else JStr (trim s)
                   | _ \<Rightarrow> JNull)))"
    by (rule general
          [where V = "\<lambda>g. validateWeeklyTaskInput lz (input(''goalId'' := g)) partial"
             and H = Ht and k = "''goalId''"])
       (rule teq, erule tnk)
  obtain Hg where
    geq: "\<And>g. validateGoalInput (input(''lifeAreaId'' := g)) partial =
            obind Hg (\<lambda>pre. obind (processOptionalId g) (\<lambda>lifeAreaId.
              Ok (if partial \<and> g = JUndefined then pre
                  else pre @ [(''lifeAreaId'', lifeAreaId)])))"
    and gnk: "\<And>pre. Hg = Ok pre \<Longrightarrow> \<not> hasProp pre ''lifeAreaId''"
    using validateGoalInput_shape [of input partial] by blast
  have goal: "(\<forall>g e. validateGoalInput (input(''lifeAreaId'' := g)) partial = Err e \<longrightarrow>
           validateGoalInput (input(''lifeAreaId'' := JUndefined)) partial = Err e)
   \<and> (\<forall>g. g = JNull \<or> (\<exists>s. g = JStr s) \<longrightarrow>
         (\<exists>d0. validateGoalInput (input(''lifeAreaId'' := JUndefined)) partial = Ok d0) \<longrightarrow>
         (\<exists>d. validateGoalInput (input(''lifeAreaId'' := g)) partial = Ok d
              \<and> getProp d ''lifeAreaId'' =
                  (case g of JStr s \<Rightarrow> if trim s = [] then JNull else JStr (trim s)
                   | _ \<Rightarrow> JNull)))"
    by (rule general
          [where V = "\<lambda>g. validateGoalInput (input(''lifeAreaId'' := g)) partial"
             and H = Hg and k = "''lifeAreaId''"])
       (rule geq, erule gnk)
  show ?thesis
    by (intro conjI task [THEN conjunct1] task [THEN conjunct2] goal [THEN conjunct1]
        goal [THEN conjunct2])
qed

theorem C10_optional_ids_normalised_witness:
  "(\<exists>d. validateWeeklyTaskInput (fixedZone 0) ((\<lambda>k. JUndefined)(''goalId'' := JStr ''   ''))
          True = Ok d \<and> getProp d ''goalId'' = JNull)
   \<and> (\<exists>d. validateGoalInput
          (((\<lambda>k. JUndefined)(''title'' := JStr ''Test Goal'', ''horizon'' := JStr ''YEAR'',
              ''status'' := JStr ''active''))(''lifeAreaId'' := JStr '' area-1 ''))
          False = Ok d \<and> getProp d ''lifeAreaId'' = JStr ''area-1'')"
proof -
  have t0: "\<exists>d0. validateWeeklyTaskInput (fixedZone 0)
              ((\<lambda>k. JUndefined)(''goalId'' := JUndefined)) True = Ok d0"
    by (rule exI [of _ "[(''title'', JNull)]"]) code_simp
  have g0: "\<exists>d0. validateGoalInput
              (((\<lambda>k. JUndefined)(''title'' := JStr ''Test Goal'', ''horizon'' := JStr ''YEAR'',
                 ''status'' := JStr ''active''))(''lifeAreaId'' := JUndefined)) False = Ok d0"
    by (rule exI [of _ "[(''title'', JStr ''Test Goal''), (''description'', JNull),
         (''horizon'', JStr ''YEAR''), (''status'', JStr ''active''),
         (''targetDate'', JNull), (''lifeAreaId'', JNull)]"]) code_simp
  have blank: "trim ''   '' = []" by code_simp
  have area: "trim '' area-1 '' = ''area-1''" by code_simp
  have s1: "JStr ''   '' = JNull \<or> (\<exists>s. JStr ''   '' = JStr s)" by simp
  have s2: "JStr '' area-1 '' = JNull \<or> (\<exists>s. JStr '' area-1 '' = JStr s)" by simp
  from C10_optional_ids_normalised [of "fixedZone 0" "\<lambda>k. JUndefined" True,
      THEN conjunct2, THEN conjunct1, THEN spec, THEN mp, THEN mp, OF s1 t0]
  have task: "\<exists>d. validateWeeklyTaskInput (fixedZone 0)
        ((\<lambda>k. JUndefined)(''goalId'' := JStr ''   '')) True = Ok d \<and> getProp d ''goalId'' = JNull"
    by (simp add: blank)
  from C10_optional_ids_normalised [of "fixedZone 0"
      "(\<lambda>k. JUndefined)(''title'' := JStr ''Test Goal'', ''horizon'' := JStr ''YEAR'',
              ''status'' := JStr ''active'')" False,
      THEN conjunct2, THEN conjunct2, THEN conjunct2, THEN spec, THEN mp, THEN mp, OF s2 g0]
  have goal: "\<exists>d. validateGoalInput
          (((\<lambda>k. JUndefined)(''title'' := JStr ''Test Goal'', ''horizon'' := JStr ''YEAR'',
              ''status'' := JStr ''active''))(''lifeAreaId'' := JStr '' area-1 ''))
          False = Ok d \<and> getProp d ''lifeAreaId'' = JStr ''area-1''"
    by (simp add: area)
  from task goal show ?thesis by (rule conjI)
qed

section \<open>No pattern test on single identifiers\<close>

lemma getProp_append_other: "k' \<noteq> k \<Longrightarrow> getProp (pre @ [(k, v)]) k' = getProp pre k'"
  by (simp add: getProp_def map_add_def split: option.splits)

text \<open>Two supplied identifiers that both pass \<open>processOptionalId\<close> give the same kind of
  outcome, and on success the same output outside the key \<open>k\<close>.\<close>

lemma optional_id_independent:
  assumes eq: "\<And>g. V g = obind H (\<lambda>pre. obind (processOptionalId g) (\<lambda>v.
                 Ok (if partial \<and> g = JUndefined then pre else pre @ [(k, v)])))"
    and g: "processOptionalId g = Ok v" "g \<noteq> JUndefined"
    and g': "processOptionalId g' = Ok v'" "g' \<noteq> JUndefined"
  shows "(\<exists>d. V g = Ok d) \<longleftrightarrow> (\<exists>d. V g' = Ok d)"
    and "V g = TypeError \<longleftrightarrow> V g' = TypeError"
    and "V g = Ok d \<Longrightarrow> V g' = Ok d' \<Longrightarrow> k' \<noteq> k \<Longrightarrow> getProp d k' = getProp d' k'"
proof -
  have vg: "V g = obind H (\<lambda>pre. Ok (pre @ [(k, v)]))"
    unfolding eq [of g] using g by (simp add: obind_simps)
  have vg': "V g' = obind H (\<lambda>pre. Ok (pre @ [(k, v')]))"
    unfolding eq [of g'] using g' by (simp add: obind_simps)
  show "(\<exists>d. V g = Ok d) \<longleftrightarrow> (\<exists>d. V g' = Ok d)"
    unfolding vg vg' by (cases H) (simp_all add: obind_simps)
  show "V g = TypeError \<longleftrightarrow> V g' = TypeError"
    unfolding vg vg' by (cases H) (simp_all add: obind_simps)
  show "getProp d k' = getProp d' k'" if "V g = Ok d" "V g' = Ok d'" "k' \<noteq> k"
  proof (cases H)
    case (Ok pre)
    with that have "d = pre @ [(k, v)]" and "d' = pre @ [(k, v')]"
      unfolding vg vg' by (simp_all add: obind_simps)
    with that(3) show ?thesis by (simp add: getProp_append_other)
  next
    case (Err e)
    with that show ?thesis unfolding vg by (simp add: obind_simps)
  next
    case TypeError
    with that show ?thesis unfolding vg by (simp add: obind_simps)
  qed
qed

text \<open>C4, as the code has it. \<open>goalId\<close> and \<open>lifeAreaId\<close> are not matched against the UUID
  pattern (only the elements of \<open>linkedGoals\<close> are). Take any input and any two strings
  for the field that are not blank, UUIDs or not. The validator succeeds for the one
  exactly when it succeeds for the other, fails with a message for the one exactly when
  it fails with the same message for the other, and throws for the one exactly when it
  throws for the other; when it succeeds for both, the two outputs agree on every other
  field; and when it succeeds, the output field is the trimmed string.\<close>

theorem C4_single_ids_pass_through:
  "trim s \<noteq> [] \<longrightarrow>
     (\<forall>s' e. trim s' \<noteq> [] \<longrightarrow>
        (validateWeeklyTaskInput lz (input(''goalId'' := JStr s)) partial = Err e
           \<longleftrightarrow> validateWeeklyTaskInput lz (input(''goalId'' := JStr s')) partial = Err e))
     \<and> (\<forall>d. validateWeeklyTaskInput lz (input(''goalId'' := JStr s)) partial = Ok d
            \<longrightarrow> getProp d ''goalId'' = JStr (trim s))
     \<and> (\<forall>s' e. trim s' \<noteq> [] \<longrightarrow>
        (validateGoalInput (input(''lifeAreaId'' := JStr s)) partial = Err e
           \<longleftrightarrow> validateGoalInput (input(''lifeAreaId'' := JStr s')) partial = Err e))
     \<and> (\<forall>d. validateGoalInput (input(''lifeAreaId'' := JStr s)) partial = Ok d
            \<longrightarrow> getProp d ''lifeAreaId'' = JStr (trim s))
     \<and> (\<forall>s'. trim s' \<noteq> [] \<longrightarrow>
          ((\<exists>d. validateWeeklyTaskInput lz (input(''goalId'' := JStr s)) partial = Ok d)
             \<longleftrightarrow> (\<exists>d. validateWeeklyTaskInput lz (input(''goalId'' := JStr s')) partial = Ok d))
          \<and> (validateWeeklyTaskInput lz (input(''goalId'' := JStr s)) partial = TypeError
             \<longleftrightarrow> validateWeeklyTaskInput lz (input(''goalId'' := JStr s')) partial = TypeError)
          \<and> (\<forall>d d' k. validateWeeklyTaskInput lz (input(''goalId'' := JStr s)) partial = Ok d
                \<longrightarrow> validateWeeklyTaskInput lz (input(''goalId'' := JStr s')) partial = Ok d'
                \<longrightarrow> k \<noteq> ''goalId'' \<longrightarrow> getProp d k = getProp d' k))
     \<and> (\<forall>s'. trim s' \<noteq> [] \<longrightarrow>
          ((\<exists>d. validateGoalInput (input(''lifeAreaId'' := JStr s)) partial = Ok d)
             \<longleftrightarrow> (\<exists>d. validateGoalInput (input(''lifeAreaId'' := JStr s')) partial = Ok d))
          \<and> (validateGoalInput (input(''lifeAreaId'' := JStr s)) partial = TypeError
             \<longleftrightarrow> validateGoalInput (input(''lifeAreaId'' := JStr s')) partial = TypeError)
          \<and> (\<forall>d d' k. validateGoalInput (input(''lifeAreaId'' := JStr s)) partial = Ok d
                \<longrightarrow> validateGoalInput (input(''lifeAreaId'' := JStr s')) partial = Ok d'
                \<longrightarrow> k \<noteq> ''lifeAreaId'' \<longrightarrow> getProp d k = getProp d' k))"
proof
  assume s: "trim s \<noteq> []"
  then have ps: "processOptionalId (JStr s) = Ok (JStr (trim s))"
    by (simp add: processOptionalId_cases)
  have ps': "processOptionalId (JStr s') = Ok (JStr (trim s'))" if "trim s' \<noteq> []" for s'
    using that by (simp add: processOptionalId_cases)
  have nu: "JStr x \<noteq> JUndefined" for x by simp
  obtain Ht where
    teq: "\<And>g. validateWeeklyTaskInput lz (input(''goalId'' := g)) partial =
            obind Ht (\<lambda>pre. obind (processOptionalId g) (\<lambda>goalId.
              Ok (if partial \<and> g = JUndefined then pre else pre @ [(''goalId'', goalId)])))"
    and tnk: "\<And>pre. Ht = Ok pre \<Longrightarrow> \<not> hasProp pre ''goalId''"
    using validateWeeklyTaskInput_shape [of lz input partial] by blast
  obtain Hg where
    geq: "\<And>g. validateGoalInput (input(''lifeAreaId'' := g)) partial =
            obind Hg (\<lambda>pre. obind (processOptionalId g) (\<lambda>lifeAreaId.
              Ok (if partial \<and> g = JUndefined then pre
                  else pre @ [(''lifeAreaId'', lifeAreaId)])))"
    and gnk: "\<And>pre. Hg = Ok pre \<Longrightarrow> \<not> hasProp pre ''lifeAreaId''"
    using validateGoalInput_shape [of input partial] by blast
  have t1: "validateWeeklyTaskInput lz (input(''goalId'' := g)) partial = Err e
              \<longleftrightarrow> Ht = Err e" for g e
    by (rule optional_id_last(1)
          [where V = "\<lambda>g. validateWeeklyTaskInput lz (input(''goalId'' := g)) partial"
             and partial = partial and k = "''goalId''"])
       (rule teq, erule tnk)
  have t2: "getProp d ''goalId'' = JStr (trim s)"
    if "validateWeeklyTaskInput lz (input(''goalId'' := JStr s)) partial = Ok d" for d
    by (rule optional_id_last(3)
          [where V = "\<lambda>g. validateWeeklyTaskInput lz (input(''goalId'' := g)) partial"
             and H = Ht and partial = partial and g = "JStr s"])
       (rule teq, erule tnk, rule ps, simp, rule that)
  have g1: "validateGoalInput (input(''lifeAreaId'' := g)) partial = Err e
              \<longleftrightarrow> Hg = Err e" for g e
    by (rule optional_id_last(1)
          [where V = "\<lambda>g. validateGoalInput (input(''lifeAreaId'' := g)) partial"
             and partial = partial and k = "''lifeAreaId''"])
       (rule geq, erule gnk)
  have g2: "getProp d ''lifeAreaId'' = JStr (trim s)"
    if "validateGoalInput (input(''lifeAreaId'' := JStr s)) partial = Ok d" for d
    by (rule optional_id_last(3)
          [where V = "\<lambda>g. validateGoalInput (input(''lifeAreaId'' := g)) partial"
             and H = Hg and partial = partial and g = "JStr s"])
       (rule geq, erule gnk, rule ps, simp, rule that)
  note ti = optional_id_independent
      [where V = "\<lambda>g. validateWeeklyTaskInput lz (input(''goalId'' := g)) partial"
         and H = Ht and partial = partial and k = "''goalId''" and g = "JStr s",
       OF teq ps nu ps' nu]
  note gi = optional_id_independent
      [where V = "\<lambda>g. validateGoalInput (input(''lifeAreaId'' := g)) partial"
         and H = Hg and partial = partial and k = "''lifeAreaId''" and g = "JStr s",
       OF geq ps nu ps' nu]
  have e: "\<forall>s'. trim s' \<noteq> [] \<longrightarrow>
          ((\<exists>d. validateWeeklyTaskInput lz (input(''goalId'' := JStr s)) partial = Ok d)
             \<longleftrightarrow> (\<exists>d. validateWeeklyTaskInput lz (input(''goalId'' := JStr s')) partial = Ok d))
          \<and> (validateWeeklyTaskInput lz (input(''goalId'' := JStr s)) partial = TypeError
             \<longleftrightarrow> validateWeeklyTaskInput lz (input(''goalId'' := JStr s')) partial = TypeError)
          \<and> (\<forall>d d' k. validateWeeklyTaskInput lz (input(''goalId'' := JStr s)) partial = Ok d
                \<longrightarrow> validateWeeklyTaskInput lz (input(''goalId'' := JStr s')) partial = Ok d'
                \<longrightarrow> k \<noteq> ''goalId'' \<longrightarrow> getProp d k = getProp d' k)"
  proof (intro allI impI)
    fix s' assume ne: "trim s' \<noteq> []"
    show "((\<exists>d. validateWeeklyTaskInput lz (input(''goalId'' := JStr s)) partial = Ok d)
             \<longleftrightarrow> (\<exists>d. validateWeeklyTaskInput lz (input(''goalId'' := JStr s')) partial = Ok d))
          \<and> (validateWeeklyTaskInput lz (input(''goalId'' := JStr s)) partial = TypeError
             \<longleftrightarrow> validateWeeklyTaskInput lz (input(''goalId'' := JStr s')) partial = TypeError)
          \<and> (\<forall>d d' k. validateWeeklyTaskInput lz (input(''goalId'' := JStr s)) partial = Ok d
                \<longrightarrow> validateWeeklyTaskInput lz (input(''goalId'' := JStr s')) partial = Ok d'
                \<longrightarrow> k \<noteq> ''goalId'' \<longrightarrow> getProp d k = getProp d' k)"
      using ti(1) [OF ne] ti(2) [OF ne] ti(3) [OF ne] by blast
  qed
  have f: "\<forall>s'. trim s' \<noteq> [] \<longrightarrow>
          ((\<exists>d. validateGoalInput (input(''lifeAreaId'' := JStr s)) partial = Ok d)
             \<longleftrightarrow> (\<exists>d. validateGoalInput (input(''lifeAreaId'' := JStr s')) partial = Ok d))
          \<and> (validateGoalInput (input(''lifeAreaId'' := JStr s)) partial = TypeError
             \<longleftrightarrow> validateGoalInput (input(''lifeAreaId'' := JStr s')) partial = TypeError)
          \<and> (\<forall>d d' k. validateGoalInput (input(''lifeAreaId'' := JStr s)) partial = Ok d
                \<longrightarrow> validateGoalInput (input(''lifeAreaId'' := JStr s')) partial = Ok d'
                \<longrightarrow> k \<noteq> ''lifeAreaId'' \<longrightarrow> getProp d k = getProp d' k)"
  proof (intro allI impI)
    fix s' assume ne: "trim s' \<noteq> []"
    show "((\<exists>d. validateGoalInput (input(''lifeAreaId'' := JStr s)) partial = Ok d)
             \<longleftrightarrow> (\<exists>d. validateGoalInput (input(''lifeAreaId'' := JStr s')) partial = Ok d))
          \<and> (validateGoalInput (input(''lifeAreaId'' := JStr s)) partial = TypeError
             \<longleftrightarrow> validateGoalInput (input(''lifeAreaId'' := JStr s')) partial = TypeError)
          \<and> (\<forall>d d' k. validateGoalInput (input(''lifeAreaId'' := JStr s)) partial = Ok d
                \<longrightarrow> validateGoalInput (input(''lifeAreaId'' := JStr s')) partial = Ok d'
                \<longrightarrow> k \<noteq> ''lifeAreaId'' \<longrightarrow> getProp d k = getProp d' k)"
      using gi(1) [OF ne] gi(2) [OF ne] gi(3) [OF ne] by blast
  qed
  have a: "\<forall>s' e. trim s' \<noteq> [] \<longrightarrow>
        (validateWeeklyTaskInput lz (input(''goalId'' := JStr s)) partial = Err e
           \<longleftrightarrow> validateWeeklyTaskInput lz (input(''goalId'' := JStr s')) partial = Err e)"
    using t1 by simp
  have b: "\<forall>d. validateWeeklyTaskInput lz (input(''goalId'' := JStr s)) partial = Ok d
            \<longrightarrow> getProp d ''goalId'' = JStr (trim s)"
    using t2 by simp
  have c: "\<forall>s' e. trim s' \<noteq> [] \<longrightarrow>
        (validateGoalInput (input(''lifeAreaId'' := JStr s)) partial = Err e
           \<longleftrightarrow> validateGoalInput (input(''lifeAreaId'' := JStr s')) partial = Err e)"
    using g1 by simp
  have d: "\<forall>d. validateGoalInput (input(''lifeAreaId'' := JStr s)) partial = Ok d
            \<longrightarrow> getProp d ''lifeAreaId'' = JStr (trim s)"
    using g2 by simp
  show "(\<forall>s' e. trim s' \<noteq> [] \<longrightarrow>
        (validateWeeklyTaskInput lz (input(''goalId'' := JStr s)) partial = Err e
           \<longleftrightarrow> validateWeeklyTaskInput lz (input(''goalId'' := JStr s')) partial = Err e))
     \<and> (\<forall>d. validateWeeklyTaskInput lz (input(''goalId'' := JStr s)) partial = Ok d
            \<longrightarrow> getProp d ''goalId'' = JStr (trim s))
     \<and> (\<forall>s' e. trim s' \<noteq> [] \<longrightarrow>
        (validateGoalInput (input(''lifeAreaId'' := JStr s)) partial = Err e
           \<longleftrightarrow> validateGoalInput (input(''lifeAreaId'' := JStr s')) partial = Err e))
     \<and> (\<forall>d. validateGoalInput (input(''lifeAreaId'' := JStr s)) partial = Ok d
            \<longrightarrow> getProp d ''lifeAreaId'' = JStr (trim s))
     \<and> (\<forall>s'. trim s' \<noteq> [] \<longrightarrow>
          ((\<exists>d. validateWeeklyTaskInput lz (input(''goalId'' := JStr s)) partial = Ok d)
             \<longleftrightarrow> (\<exists>d. validateWeeklyTaskInput lz (input(''goalId'' := JStr s')) partial = Ok d))
          \<and> (validateWeeklyTaskInput lz (input(''goalId'' := JStr s)) partial = TypeError
             \<longleftrightarrow> validateWeeklyTaskInput lz (input(''goalId'' := JStr s')) partial = TypeError)
          \<and> (\<forall>d d' k. validateWeeklyTaskInput lz (input(''goalId'' := JStr s)) partial = Ok d
                \<longrightarrow> validateWeeklyTaskInput lz (input(''goalId'' := JStr s')) partial = Ok d'
                \<longrightarrow> k \<noteq> ''goalId'' \<longrightarrow> getProp d k = getProp d' k))
     \<and> (\<forall>s'. trim s' \<noteq> [] \<longrightarrow>
          ((\<exists>d. validateGoalInput (input(''lifeAreaId'' := JStr s)) partial = Ok d)
             \<longleftrightarrow> (\<exists>d. validateGoalInput (input(''lifeAreaId'' := JStr s')) partial = Ok d))
          \<and> (validateGoalInput (input(''lifeAreaId'' := JStr s)) partial = TypeError
             \<longleftrightarrow> validateGoalInput (input(''lifeAreaId'' := JStr s')) partial = TypeError)
          \<and> (\<forall>d d' k. validateGoalInput (input(''lifeAreaId'' := JStr s)) partial = Ok d
                \<longrightarrow> validateGoalInput (input(''lifeAreaId'' := JStr s')) partial = Ok d'
                \<longrightarrow> k \<noteq> ''lifeAreaId'' \<longrightarrow> getProp d k = getProp d' k))"
    by (intro conjI) (rule a, rule b, rule c, rule d, rule e, rule f)
qed

theorem C4_single_ids_pass_through_witness:
  "(\<exists>d. validateWeeklyTaskInput (fixedZone 0)
          ((\<lambda>k. JUndefined)(''goalId'' := JStr ''test-goal-id'')) True = Ok d
       \<and> getProp d ''goalId'' = JStr ''test-goal-id''
       \<and> \<not> isValidUUID ''test-goal-id'')
   \<and> isValidUUID ''123e4567-e89b-42d3-a456-426614174000''
   \<and> (\<exists>d. validateWeeklyTaskInput (fixedZone 0)
          ((\<lambda>k. JUndefined)(''goalId'' := JStr ''123e4567-e89b-42d3-a456-426614174000'')) True
         = Ok d)"
proof -
  have tr: "trim ''test-goal-id'' = ''test-goal-id''" by code_simp
  then have ne: "trim ''test-goal-id'' \<noteq> []" by simp
  have tr': "trim ''123e4567-e89b-42d3-a456-426614174000''
               = ''123e4567-e89b-42d3-a456-426614174000''" by code_simp
  then have ne': "trim ''123e4567-e89b-42d3-a456-426614174000'' \<noteq> []" by simp
  have run: "validateWeeklyTaskInput (fixedZone 0)
          ((\<lambda>k. JUndefined)(''goalId'' := JStr ''test-goal-id'')) True
       = Ok [(''title'', JNull), (''goalId'', JStr ''test-goal-id'')]"
    by code_simp
  have bad: "\<not> isValidUUID ''test-goal-id''" by code_simp
  have good: "isValidUUID ''123e4567-e89b-42d3-a456-426614174000''" by code_simp
  note C4 = C4_single_ids_pass_through [of "''test-goal-id''" "fixedZone 0" "\<lambda>k. JUndefined" True,
      THEN mp, OF ne]
  from C4 [THEN conjunct2, THEN conjunct1, THEN spec, THEN mp, OF run]
  have field: "getProp [(''title'', JNull), (''goalId'', JStr ''test-goal-id'')] ''goalId''
          = JStr ''test-goal-id''"
    by (simp add: tr)
  from run have ok: "\<exists>d. validateWeeklyTaskInput (fixedZone 0)
          ((\<lambda>k. JUndefined)(''goalId'' := JStr ''test-goal-id'')) True = Ok d"
    by simp
  from C4 [THEN conjunct2, THEN conjunct2, THEN conjunct2, THEN conjunct2, THEN conjunct1,
      THEN spec, THEN mp, OF ne', THEN conjunct1, THEN iffD1, OF ok]
  have other: "\<exists>d. validateWeeklyTaskInput (fixedZone 0)
          ((\<lambda>k. JUndefined)(''goalId'' := JStr ''123e4567-e89b-42d3-a456-426614174000'')) True
         = Ok d" .
  from run field bad good other show ?thesis by blast
qed

text \<open>The claim C4 as stated fails: a task with the goal id \<open>test-goal-id\<close> and a goal with
  the life area id \<open>a1b2c3d4-e5f6-7890-abcd-ef1234567890\<close> (version digit 7) are accepted,
  though neither string matches the UUID pattern.\<close>

theorem C4_single_ids_counterexample:
  "validateWeeklyTaskInput (fixedZone 0)
       ((\<lambda>k. JUndefined)(''goalId'' := JStr ''test-goal-id'')) True
     = Ok [(''title'', JNull), (''goalId'', JStr ''test-goal-id'')]
   \<and> \<not> isValidUUID (trim ''test-goal-id'')
   \<and> validateGoalInput
       ((\<lambda>k. JUndefined)(''title'' := JStr ''Test Goal'', ''horizon'' := JStr ''YEAR'',
          ''status'' := JStr ''active'',
          ''lifeAreaId'' := JStr ''  a1b2c3d4-e5f6-7890-abcd-ef1234567890  '')) False
     = Ok [(''title'', JStr ''Test Goal''), (''description'', JNull),
           (''horizon'', JStr ''YEAR''), (''status'', JStr ''active''),
           (''targetDate'', JNull),
           (''lifeAreaId'', JStr ''a1b2c3d4-e5f6-7890-abcd-ef1234567890'')]
   \<and> \<not> isValidUUID (trim ''  a1b2c3d4-e5f6-7890-abcd-ef1234567890  '')"
  by code_simp

section \<open>Linked goals\<close>

lemma linkedGoalsLoop_good:
  "seenIds = set cleanedIds \<Longrightarrow> list_all goodGoalId ids \<Longrightarrow> distinct (map cleanGoalId ids)
   \<Longrightarrow> set (map cleanGoalId ids) \<inter> set cleanedIds = {}
   \<Longrightarrow> linkedGoalsLoop seenIds cleanedIds ids = Ok (cleanedIds @ map cleanGoalId ids)"
proof (induction ids arbitrary: seenIds cleanedIds)
  case Nil
  then show ?case by simp
next
  case (Cons v ids)
  from Cons.prems(2) obtain s where v: "v = JStr s" and uuid: "isValidUUID (trim s)"
    by (cases v) (auto simp: goodGoalId_def)
  from Cons.prems(1,4) v have fresh: "trim s \<notin> seenIds"
    by (auto simp: cleanGoalId_def)
  have "linkedGoalsLoop (insert (trim s) seenIds) (cleanedIds @ [trim s]) ids
          = Ok ((cleanedIds @ [trim s]) @ map cleanGoalId ids)"
  proof (rule Cons.IH)
    show "insert (trim s) seenIds = set (cleanedIds @ [trim s])"
      using Cons.prems(1) by simp
    show "list_all goodGoalId ids" using Cons.prems(2) by simp
    show "distinct (map cleanGoalId ids)" using Cons.prems(3) by simp
    show "set (map cleanGoalId ids) \<inter> set (cleanedIds @ [trim s]) = {}"
      using Cons.prems(3,4) v by (auto simp: cleanGoalId_def)
  qed
  with v uuid fresh show ?case
    by (simp add: cleanGoalId_def Let_def)
qed

text \<open>The loop stops at the first element that is bad or repeats an earlier cleaned id.\<close>

lemma linkedGoalsLoop_first_offender:
  assumes "seenIds = set cleanedIds"
    and "list_all goodGoalId pre" and "distinct (map cleanGoalId pre)"
    and "set (map cleanGoalId pre) \<inter> set cleanedIds = {}"
  shows "linkedGoalsLoop seenIds cleanedIds (pre @ v # rest) =
     (if \<not> goodGoalId v then Err msgGoalIdsUuid
      else if cleanGoalId v \<in> set cleanedIds \<union> set (map cleanGoalId pre)
        then Err msgDuplicateGoal
      else linkedGoalsLoop (insert (cleanGoalId v) (seenIds \<union> set (map cleanGoalId pre)))
             (cleanedIds @ map cleanGoalId pre @ [cleanGoalId v]) rest)"
  using assms
proof (induction pre arbitrary: seenIds cleanedIds)
  case Nil
  then show ?case
    by (cases v) (auto simp: goodGoalId_def cleanGoalId_def Let_def)
next
  case (Cons u pre)
  from Cons.prems(2) obtain s where u: "u = JStr s" and uuid: "isValidUUID (trim s)"
    by (cases u) (auto simp: goodGoalId_def)
  from Cons.prems(1,4) u have fresh: "trim s \<notin> seenIds"
    by (auto simp: cleanGoalId_def)
  have step: "linkedGoalsLoop seenIds cleanedIds ((u # pre) @ v # rest)
        = linkedGoalsLoop (insert (trim s) seenIds) (cleanedIds @ [trim s]) (pre @ v # rest)"
    using u uuid fresh by (simp add: Let_def)
  have IH: "linkedGoalsLoop (insert (trim s) seenIds) (cleanedIds @ [trim s]) (pre @ v # rest) =
     (if \<not> goodGoalId v then Err msgGoalIdsUuid
      else if cleanGoalId v \<in> set (cleanedIds @ [trim s]) \<union> set (map cleanGoalId pre)
        then Err msgDuplicateGoal
      else linkedGoalsLoop
             (insert (cleanGoalId v) (insert (trim s) seenIds \<union> set (map cleanGoalId pre)))
             ((cleanedIds @ [trim s]) @ map cleanGoalId pre @ [cleanGoalId v]) rest)"
  proof (rule Cons.IH)
    show "insert (trim s) seenIds = set (cleanedIds @ [trim s])"
      using Cons.prems(1) by simp
    show "list_all goodGoalId pre" using Cons.prems(2) by simp
    show "distinct (map cleanGoalId pre)" using Cons.prems(3) by simp
    show "set (map cleanGoalId pre) \<inter> set (cleanedIds @ [trim s]) = {}"
      using Cons.prems(3,4) u by (auto simp: cleanGoalId_def)
  qed
  have sets: "insert (trim s) seenIds \<union> set (map cleanGoalId pre)
                = seenIds \<union> set (map cleanGoalId (u # pre))"
    using u by (auto simp: cleanGoalId_def)
  have mem: "cleanGoalId v \<in> set (cleanedIds @ [trim s]) \<union> set (map cleanGoalId pre)
           \<longleftrightarrow> cleanGoalId v \<in> set cleanedIds \<union> set (map cleanGoalId (u # pre))"
    using u by (auto simp: cleanGoalId_def)
  have lists: "(cleanedIds @ [trim s]) @ map cleanGoalId pre @ [cleanGoalId v]
                = cleanedIds @ map cleanGoalId (u # pre) @ [cleanGoalId v]"
    using u by (simp add: cleanGoalId_def)
  show ?case
    unfolding step IH sets mem lists by (rule refl)
qed

lemma linkedGoalsLoop_fails:
  "linkedGoalsLoop seenIds cleanedIds ids \<noteq> TypeError"
  by (induction ids arbitrary: seenIds cleanedIds) (auto simp: Let_def split: jsval.splits)

lemma linkedGoalsLoop_Ok_only_good:
  "seenIds = set cleanedIds \<Longrightarrow> linkedGoalsLoop seenIds cleanedIds ids = Ok out
   \<Longrightarrow> list_all goodGoalId ids \<and> distinct (map cleanGoalId ids)
       \<and> set (map cleanGoalId ids) \<inter> set cleanedIds = {}"
proof (induction ids arbitrary: seenIds cleanedIds)
  case Nil
  then show ?case by simp
next
  case (Cons v ids)
  from Cons.prems(2) obtain s where v: "v = JStr s"
    by (cases v) simp_all
  from Cons.prems(2) v have uuid: "isValidUUID (trim s)" and fresh: "trim s \<notin> seenIds"
    and rest: "linkedGoalsLoop (insert (trim s) seenIds) (cleanedIds @ [trim s]) ids = Ok out"
    by (simp_all add: Let_def split: if_splits)
  have "list_all goodGoalId ids \<and> distinct (map cleanGoalId ids)
       \<and> set (map cleanGoalId ids) \<inter> set (cleanedIds @ [trim s]) = {}"
  proof (rule Cons.IH [OF _ rest])
    show "insert (trim s) seenIds = set (cleanedIds @ [trim s])"
      using Cons.prems(1) by simp
  qed
  moreover have "goodGoalId v" and "cleanGoalId v = trim s"
    using v uuid by (simp_all add: goodGoalId_def cleanGoalId_def)
  ultimately show ?case
    using fresh Cons.prems(1) by auto
qed

text \<open>C6, as the code has it. A falsy value (\<open>undefined\<close>, \<open>null\<close>, \<open>false\<close>, \<open>0\<close>,
  \<open>NaN\<close>, the empty string) is accepted as the empty list; any other value that is not an
  array is rejected with the UUID message; an array of more than 3 elements gets the
  message about 3 goals; an array of at most 3 elements that are all strings with a UUID
  as trimmed form, distinct after trimming, succeeds with the trimmed ids in input order;
  every other array of at most 3 elements fails, and the message is decided by its first
  offending element: the UUID message when that element is not a string or fails the
  pattern, the duplicate message when it is a valid id that repeats an earlier one.\<close>

theorem C6_validateLinkedGoals_first_offender:
  "(falsy v \<longrightarrow> validateLinkedGoals v = Ok [])
   \<and> (\<not> falsy v \<and> \<not> isArray v \<longrightarrow>
        validateLinkedGoals v = Err ''All goal IDs must be valid UUIDs'')
   \<and> (length ids > 3 \<longrightarrow> validateLinkedGoals (JArr ids) = Err ''Can't link more than 3 goals'')
   \<and> (length ids \<le> 3 \<and> list_all goodGoalId ids \<and> distinct (map cleanGoalId ids) \<longrightarrow>
        validateLinkedGoals (JArr ids) = Ok (map cleanGoalId ids))
   \<and> (length ids \<le> 3 \<and> \<not> (list_all goodGoalId ids \<and> distinct (map cleanGoalId ids)) \<longrightarrow>
        (\<exists>e. validateLinkedGoals (JArr ids) = Err e))
   \<and> (\<forall>pre x rest. ids = pre @ x # rest \<and> length ids \<le> 3 \<and> list_all goodGoalId pre
          \<and> distinct (map cleanGoalId pre) \<longrightarrow>
        (\<not> goodGoalId x \<longrightarrow>
           validateLinkedGoals (JArr ids) = Err ''All goal IDs must be valid UUIDs'')
        \<and> (goodGoalId x \<and> cleanGoalId x \<in> set (map cleanGoalId pre) \<longrightarrow>
           validateLinkedGoals (JArr ids) = Err ''Can't link the same goal multiple times''))"
proof (intro conjI impI allI)
  assume "falsy v"
  then show "validateLinkedGoals v = Ok []"
    by (simp add: validateLinkedGoals_def)
next
  assume "\<not> falsy v \<and> \<not> isArray v"
  then show "validateLinkedGoals v = Err ''All goal IDs must be valid UUIDs''"
    by (cases v) (simp_all add: validateLinkedGoals_def isArray_def msgGoalIdsUuid_def)
next
  assume "length ids > 3"
  then show "validateLinkedGoals (JArr ids) = Err ''Can't link more than 3 goals''"
    by (simp add: validateLinkedGoals_def msgTooManyGoals_def)
next
  assume "length ids \<le> 3 \<and> list_all goodGoalId ids \<and> distinct (map cleanGoalId ids)"
  then show "validateLinkedGoals (JArr ids) = Ok (map cleanGoalId ids)"
    using linkedGoalsLoop_good [of "{}" "[]" ids]
    by (simp add: validateLinkedGoals_def)
next
  assume a: "length ids \<le> 3 \<and> \<not> (list_all goodGoalId ids \<and> distinct (map cleanGoalId ids))"
  have "linkedGoalsLoop {} [] ids \<noteq> Ok out" for out
    using linkedGoalsLoop_Ok_only_good [of "{}" "[]" ids out] a by auto
  then obtain e where "linkedGoalsLoop {} [] ids = Err e"
    using linkedGoalsLoop_fails [of "{}" "[]" ids]
    by (cases "linkedGoalsLoop {} [] ids") auto
  with a show "\<exists>e. validateLinkedGoals (JArr ids) = Err e"
    by (simp add: validateLinkedGoals_def)
next
  fix pre x rest
  assume a: "ids = pre @ x # rest \<and> length ids \<le> 3 \<and> list_all goodGoalId pre
          \<and> distinct (map cleanGoalId pre)"
  assume bad: "\<not> goodGoalId x"
  from a have ids: "ids = pre @ x # rest" and len: "length ids \<le> 3" by blast+
  from len have "validateLinkedGoals (JArr ids) = linkedGoalsLoop {} [] ids"
    by (simp add: validateLinkedGoals_def)
  also have "\<dots> = linkedGoalsLoop {} [] (pre @ x # rest)"
    by (simp only: ids)
  also have "\<dots> = Err msgGoalIdsUuid"
    using linkedGoalsLoop_first_offender [of "{}" "[]" pre x rest] a bad by simp
  finally show "validateLinkedGoals (JArr ids) = Err ''All goal IDs must be valid UUIDs''"
    by (simp add: msgGoalIdsUuid_def)
next
  fix pre x rest
  assume a: "ids = pre @ x # rest \<and> length ids \<le> 3 \<and> list_all goodGoalId pre
          \<and> distinct (map cleanGoalId pre)"
  assume dup: "goodGoalId x \<and> cleanGoalId x \<in> set (map cleanGoalId pre)"
  from a have ids: "ids = pre @ x # rest" and len: "length ids \<le> 3" by blast+
  from len have "validateLinkedGoals (JArr ids) = linkedGoalsLoop {} [] ids"
    by (simp add: validateLinkedGoals_def)
  also have "\<dots> = linkedGoalsLoop {} [] (pre @ x # rest)"
    by (simp only: ids)
  also have "\<dots> = Err msgDuplicateGoal"
    using linkedGoalsLoop_first_offender [of "{}" "[]" pre x rest] a dup by simp
  finally show "validateLinkedGoals (JArr ids) = Err ''Can't link the same goal multiple times''"
    by (simp add: msgDuplicateGoal_def)
qed

theorem C6_validateLinkedGoals_first_offender_witness:
  "validateLinkedGoals JNull = Ok []
   \<and> validateLinkedGoals (JStr ''not-array'') = Err ''All goal IDs must be valid UUIDs''
   \<and> validateLinkedGoals (JArr [JStr ''a'', JStr ''b'', JStr ''c'', JStr ''d''])
        = Err ''Can't link more than 3 goals''
   \<and> validateLinkedGoals (JArr [JStr ''  a1b2c3d4-e5f6-4890-abcd-ef1234567890  '',
          JStr ''b2c3d4e5-f6a7-4901-bcde-f12345678901''])
        = Ok [''a1b2c3d4-e5f6-4890-abcd-ef1234567890'', ''b2c3d4e5-f6a7-4901-bcde-f12345678901'']
   \<and> validateLinkedGoals (JArr [JStr ''a1b2c3d4-e5f6-4890-abcd-ef1234567890'',
          JStr ''a1b2c3d4-e5f6-4890-abcd-ef1234567890'', JStr ''invalid-uuid''])
        = Err ''Can't link the same goal multiple times''
   \<and> validateLinkedGoals (JArr [JStr ''invalid-uuid'',
          JStr ''a1b2c3d4-e5f6-4890-abcd-ef1234567890'',
          JStr ''a1b2c3d4-e5f6-4890-abcd-ef1234567890''])
        = Err ''All goal IDs must be valid UUIDs''"
proof -
  let ?A = "JStr ''a1b2c3d4-e5f6-4890-abcd-ef1234567890''"
  let ?A' = "JStr ''  a1b2c3d4-e5f6-4890-abcd-ef1234567890  ''"
  let ?B = "JStr ''b2c3d4e5-f6a7-4901-bcde-f12345678901''"
  let ?X = "JStr ''invalid-uuid''"
  note C6 = C6_validateLinkedGoals_first_offender
  have w1: "validateLinkedGoals JNull = Ok []"
    using C6 [of JNull "[]", THEN conjunct1] by simp
  have w2: "validateLinkedGoals (JStr ''not-array'') = Err ''All goal IDs must be valid UUIDs''"
    using C6 [of "JStr ''not-array''" "[]", THEN conjunct2, THEN conjunct1]
    by (simp add: isArray_def)
  have w3: "validateLinkedGoals (JArr [JStr ''a'', JStr ''b'', JStr ''c'', JStr ''d''])
        = Err ''Can't link more than 3 goals''"
    using C6 [of JNull "[JStr ''a'', JStr ''b'', JStr ''c'', JStr ''d'']",
        THEN conjunct2, THEN conjunct2, THEN conjunct1]
    by simp
  have gA: "goodGoalId ?A" by code_simp
  have gA': "goodGoalId ?A'" by code_simp
  have gB: "goodGoalId ?B" by code_simp
  have bX: "\<not> goodGoalId ?X" by code_simp
  have cA: "cleanGoalId ?A = ''a1b2c3d4-e5f6-4890-abcd-ef1234567890''" by code_simp
  have cA': "cleanGoalId ?A' = ''a1b2c3d4-e5f6-4890-abcd-ef1234567890''" by code_simp
  have cB: "cleanGoalId ?B = ''b2c3d4e5-f6a7-4901-bcde-f12345678901''" by code_simp
  have w4: "validateLinkedGoals (JArr [?A', ?B])
        = Ok [''a1b2c3d4-e5f6-4890-abcd-ef1234567890'', ''b2c3d4e5-f6a7-4901-bcde-f12345678901'']"
    using C6 [of JNull "[?A', ?B]", THEN conjunct2, THEN conjunct2, THEN conjunct2,
        THEN conjunct1] gA' gB
    by (simp add: cA' cB)
  have w5: "validateLinkedGoals (JArr [?A, ?A, ?X]) = Err ''Can't link the same goal multiple times''"
    using C6 [of JNull "[?A, ?A, ?X]", THEN conjunct2, THEN conjunct2, THEN conjunct2,
        THEN conjunct2, THEN conjunct2, THEN spec, THEN spec, THEN spec,
        of "[?A]" "?A" "[?X]"] gA
    by (simp add: cA)
  have w6: "validateLinkedGoals (JArr [?X, ?A, ?A]) = Err ''All goal IDs must be valid UUIDs''"
    using C6 [of JNull "[?X, ?A, ?A]", THEN conjunct2, THEN conjunct2, THEN conjunct2,
        THEN conjunct2, THEN conjunct2, THEN spec, THEN spec, THEN spec,
        of "[]" "?X" "[?A, ?A]"] bX
    by simp
  from w1 w2 w3 w4 w5 w6 show ?thesis by (intro conjI)
qed

text \<open>The claim C6 as stated fails on three inputs: \<open>null\<close> is not an array and is
  accepted; an array whose second element repeats the first and whose third is not a
  UUID gets the duplicate message, not the UUID message; an array whose first element is
  not a UUID and whose third repeats the second gets the UUID message, not the duplicate
  message.\<close>

theorem C6_validateLinkedGoals_counterexample:
  "validateLinkedGoals JNull = Ok []
   \<and> validateLinkedGoals (JArr [JStr ''a1b2c3d4-e5f6-4890-abcd-ef1234567890'',
          JStr ''a1b2c3d4-e5f6-4890-abcd-ef1234567890'', JStr ''invalid-uuid''])
        = Err ''Can't link the same goal multiple times''
   \<and> \<not> isValidUUID (trim ''invalid-uuid'')
   \<and> validateLinkedGoals (JArr [JStr ''invalid-uuid'',
          JStr ''a1b2c3d4-e5f6-4890-abcd-ef1234567890'',
          JStr ''a1b2c3d4-e5f6-4890-abcd-ef1234567890''])
        = Err ''All goal IDs must be valid UUIDs''"
  by code_simp

section \<open>Partial mode\<close>

text \<open>C3. In partial mode the title of a weekly task and of a focus theme is present as
  \<open>null\<close> in the returned data although it was not supplied, and the update mode of
  \<open>validateLifeAreaInput\<close> returns all of name, color, vision and strategy as \<open>null\<close>
  (and \<open>order\<close> as \<open>undefined\<close>) when they were not supplied.\<close>

theorem C3_partial_mode_unsupplied_fields:
  "validateWeeklyTaskInput lz ((\<lambda>k. JUndefined)(''monday'' := JBool True)) True
     = Ok [(''title'', JNull), (''monday'', JBool True)]
   \<and> validateFocusInput lz ((\<lambda>k. JUndefined)(''note'' := JStr ''rest more'')) True
     = Ok [(''title'', JNull), (''note'', JStr ''rest more'')]
   \<and> validateLifeAreaInput ((\<lambda>k. JUndefined)(''color'' := JStr ''#FF0000'')) True
     = Ok [(''name'', JNull), (''color'', JStr ''#FF0000''), (''vision'', JNull),
           (''strategy'', JNull), (''order'', JUndefined)]"
  by code_simp

theorem C3_partial_mode_unsupplied_fields_witness:
  "(\<exists>d. validateWeeklyTaskInput (fixedZone 0) ((\<lambda>k. JUndefined)(''monday'' := JBool True)) True
          = Ok d \<and> hasProp d ''title'' \<and> getProp d ''title'' = JNull)
   \<and> (\<exists>d. validateFocusInput (fixedZone 0) ((\<lambda>k. JUndefined)(''note'' := JStr ''rest more''))
          True = Ok d \<and> hasProp d ''title'' \<and> getProp d ''title'' = JNull)
   \<and> (\<exists>d. validateLifeAreaInput ((\<lambda>k. JUndefined)(''color'' := JStr ''#FF0000'')) True
          = Ok d \<and> hasProp d ''name'' \<and> getProp d ''name'' = JNull
            \<and> hasProp d ''vision'' \<and> hasProp d ''strategy'')"
  using C3_partial_mode_unsupplied_fields [of "fixedZone 0"]
  by (simp add: hasProp_def getProp_def)

section \<open>Week start strings\<close>

text \<open>C1. The Monday test of \<open>validateWeekStart\<close> reads the weekday in the process's local
  time. In a process seven hours behind UTC (America/Denver in winter) the string
  \<open>2025-01-06\<close>, a Monday, is rejected with the Monday message, and \<open>2025-01-07\<close>, a
  Tuesday, is accepted; in a process on UTC the Monday is accepted.\<close>

theorem C1_validateWeekStart_local_weekday:
  "validateWeekStart (fixedZone (- 25200000)) (JStr ''2025-01-06'')
     = Err ''Week start must be a Monday''
   \<and> validateWeekStart (fixedZone (- 25200000)) (JStr ''2025-01-07'') = Ok 1736208000000
   \<and> parseUtcMidnight ''2025-01-06'' = Some 1736121600000
   \<and> WeekDay 1736121600000 = 1
   \<and> parseUtcMidnight ''2025-01-07'' = Some 1736208000000
   \<and> WeekDay 1736208000000 = 2
   \<and> validateWeekStart (fixedZone 0) (JStr ''2025-01-06'') = Ok 1736121600000"
  by code_simp

section \<open>Week start of an instant in a zone\<close>

lemma setHoursZero_setFullYear:
  "setHoursZero (fixedZone off) (setFullYear (fixedZone off) now y m dt)
     = MakeDay y m dt * msPerDay - off"
proof -
  have "(MakeDay y m dt * msPerDay + (now + off) mod msPerDay) div msPerDay = MakeDay y m dt"
    by (simp add: msPerDay_def)
  then show ?thesis
    by (simp add: setHoursZero_def setFullYear_def fixedZone_def UTC_def LocalTime_def
        MakeDate_def Day_def TimeWithinDay_def)
qed

lemma weekStartFor_any_now:
  "weekStartFor (fixedZone off) now date tz = weekStartFor (fixedZone off) 0 date tz"
  unfolding weekStartFor_def Let_def setHoursZero_setFullYear by (rule refl)

text \<open>C2. With the process on UTC and the zone seven hours behind UTC, the week start of
  Wednesday 2025-01-08 12:00 UTC is 2025-01-06 00:00 UTC, which in the zone is Sunday
  17:00, and the week start of that result is 2024-12-30 00:00 UTC: the function is not
  idempotent there, and its result is not a Monday at midnight in the zone. This holds
  whatever the current instant \<open>now\<close> is.\<close>

theorem C2_weekStartFor_other_zone:
  "weekStartFor (fixedZone 0) now 1736337600000 (fixedZone (- 25200000)) = 1736121600000
   \<and> weekStartFor (fixedZone 0) now 1736121600000 (fixedZone (- 25200000)) = 1735516800000
   \<and> WeekDay (LocalTime (fixedZone (- 25200000)) 1736121600000) = 0
   \<and> TimeWithinDay (LocalTime (fixedZone (- 25200000)) 1736121600000) = 61200000
   \<and> isoDatePart 1736121600000 = ''2025-01-06''
   \<and> isoDatePart 1735516800000 = ''2024-12-30''"
proof -
  have "weekStartFor (fixedZone 0) 0 1736337600000 (fixedZone (- 25200000)) = 1736121600000
   \<and> weekStartFor (fixedZone 0) 0 1736121600000 (fixedZone (- 25200000)) = 1735516800000
   \<and> WeekDay (LocalTime (fixedZone (- 25200000)) 1736121600000) = 0
   \<and> TimeWithinDay (LocalTime (fixedZone (- 25200000)) 1736121600000) = 61200000
   \<and> isoDatePart 1736121600000 = ''2025-01-06''
   \<and> isoDatePart 1735516800000 = ''2024-12-30''"
    by code_simp
  then show ?thesis
    by (simp only: weekStartFor_any_now [of 0 now])
qed

section \<open>Calendar arithmetic\<close>

lemma div_bounds:
  fixes x n :: int
  assumes "0 < n"
  shows "n * (x div n) \<le> x" and "x < n * (x div n) + n"
proof -
  have "x = n * (x div n) + x mod n" by simp
  moreover have "0 \<le> x mod n" and "x mod n < n" using assms by simp_all
  ultimately show "n * (x div n) \<le> x" and "x < n * (x div n) + n" by linarith+
qed

lemma div_succ:
  fixes x n :: int
  assumes "1 < n"
  shows "(x + 1) div n = x div n + (if (x + 1) mod n = 0 then 1 else 0)"
proof -
  have x: "x = n * (x div n) + x mod n" by simp
  have r: "0 \<le> x mod n" "x mod n < n" using assms by simp_all
  show ?thesis
  proof (cases "x mod n = n - 1")
    case True
    have "x + 1 = n * (x div n) + (x mod n + 1)" using x by linarith
    also have "\<dots> = n * (x div n) + n" using True by simp
    also have "\<dots> = n * (x div n + 1) + 0" by (simp add: algebra_simps)
    finally have e: "x + 1 = n * (x div n + 1) + 0" .
    have "(x + 1) div n = x div n + 1"
      by (rule int_div_pos_eq [OF e]) (use assms in simp_all)
    moreover have "(x + 1) mod n = 0"
      by (rule int_mod_pos_eq [OF e]) (use assms in simp_all)
    ultimately show ?thesis by simp
  next
    case False
    with r have lt: "x mod n + 1 < n" by linarith
    have e: "x + 1 = n * (x div n) + (x mod n + 1)" using x by linarith
    have nn: "0 \<le> x mod n + 1" using r by linarith
    have "(x + 1) div n = x div n"
      by (rule int_div_pos_eq [OF e nn lt])
    moreover have "(x + 1) mod n = x mod n + 1"
      by (rule int_mod_pos_eq [OF e nn lt])
    ultimately show ?thesis using r by simp
  qed
qed

lemma mod_shift:
  fixes y n k :: int
  shows "(y - n * k) mod n = y mod n"
proof -
  have "(y - n * k + k * n) mod n = (y - n * k) mod n" by (rule mod_mult_self1)
  then show ?thesis by (simp add: algebra_simps)
qed

lemma leap_step:
  fixes y :: int
  shows "(y + 1 - 1969) div 4 = (y - 1969) div 4 + (if y mod 4 = 0 then 1 else 0)"
    and "(y + 1 - 1901) div 100 = (y - 1901) div 100 + (if y mod 100 = 0 then 1 else 0)"
    and "(y + 1 - 1601) div 400 = (y - 1601) div 400 + (if y mod 400 = 0 then 1 else 0)"
proof -
  have m4: "(y - 1969 + 1) mod 4 = y mod 4"
  proof -
    have "y - 1969 + 1 = y - 4 * 492" by simp
    then show ?thesis by (simp only: mod_shift)
  qed
  have m100: "(y - 1901 + 1) mod 100 = y mod 100"
  proof -
    have "y - 1901 + 1 = y - 100 * 19" by simp
    then show ?thesis by (simp only: mod_shift)
  qed
  have m400: "(y - 1601 + 1) mod 400 = y mod 400"
  proof -
    have "y - 1601 + 1 = y - 400 * 4" by simp
    then show ?thesis by (simp only: mod_shift)
  qed
  have e4: "y + 1 - 1969 = y - 1969 + 1" and e100: "y + 1 - 1901 = y - 1901 + 1"
    and e400: "y + 1 - 1601 = y - 1601 + 1" by simp_all
  have one4: "(1::int) < 4" and one100: "(1::int) < 100" and one400: "(1::int) < 400" by simp_all
  show "(y + 1 - 1969) div 4 = (y - 1969) div 4 + (if y mod 4 = 0 then 1 else 0)"
    unfolding e4 using div_succ [OF one4, of "y - 1969"] by (simp only: m4)
  show "(y + 1 - 1901) div 100 = (y - 1901) div 100 + (if y mod 100 = 0 then 1 else 0)"
    unfolding e100 using div_succ [OF one100, of "y - 1901"] by (simp only: m100)
  show "(y + 1 - 1601) div 400 = (y - 1601) div 400 + (if y mod 400 = 0 then 1 else 0)"
    unfolding e400 using div_succ [OF one400, of "y - 1601"] by (simp only: m400)
qed

lemma mod_400_100_4:
  fixes y :: int
  shows "y mod 400 = 0 \<Longrightarrow> y mod 100 = 0" and "y mod 100 = 0 \<Longrightarrow> y mod 4 = 0"
proof -
  have "y mod 400 mod 100 = y mod 100" by (rule mod_mod_cancel) simp
  then show "y mod 400 = 0 \<Longrightarrow> y mod 100 = 0" by simp
  have "y mod 100 mod 4 = y mod 4" by (rule mod_mod_cancel) simp
  then show "y mod 100 = 0 \<Longrightarrow> y mod 4 = 0" by simp
qed

lemma DayFromYear_step:
  "DayFromYear (y + 1) = DayFromYear y + (if InLeapYear y then 366 else 365)"
proof -
  define a b c where "a = (y - 1969) div 4" and "b = (y - 1901) div 100"
    and "c = (y - 1601) div 400"
  define p q r :: int where "p = (if y mod 4 = 0 then 1 else 0)"
    and "q = (if y mod 100 = 0 then 1 else 0)" and "r = (if y mod 400 = 0 then 1 else 0)"
  have lhs: "DayFromYear (y + 1) = 365 * (y + 1 - 1970) + (a + p) - (b + q) + (c + r)"
    unfolding DayFromYear_def leap_step a_def b_def c_def p_def q_def r_def by (rule refl)
  have rhs: "DayFromYear y = 365 * (y - 1970) + a - b + c"
    unfolding DayFromYear_def a_def b_def c_def by (rule refl)
  have leap: "(if InLeapYear y then 366 else 365) = 365 + p - q + r"
  proof -
    consider (i) "y mod 4 \<noteq> 0" "y mod 100 \<noteq> 0" "y mod 400 \<noteq> 0"
      | (ii) "y mod 4 = 0" "y mod 100 \<noteq> 0" "y mod 400 \<noteq> 0"
      | (iii) "y mod 4 = 0" "y mod 100 = 0" "y mod 400 \<noteq> 0"
      | (iv) "y mod 4 = 0" "y mod 100 = 0" "y mod 400 = 0"
      using mod_400_100_4 [of y] by argo
    then show ?thesis
    proof cases
      case i
      then show ?thesis unfolding InLeapYear_def p_def q_def r_def by (simp only: if_False simp_thms; simp)
    next
      case ii
      then show ?thesis unfolding InLeapYear_def p_def q_def r_def by (simp only: if_False if_True simp_thms; simp)
    next
      case iii
      then show ?thesis unfolding InLeapYear_def p_def q_def r_def by (simp only: if_False if_True simp_thms; simp)
    next
      case iv
      then show ?thesis unfolding InLeapYear_def p_def q_def r_def by (simp only: if_False if_True simp_thms; simp)
    qed
  qed
  show ?thesis unfolding lhs rhs leap by (simp add: algebra_simps)
qed

lemma DayFromYear_bounds:
  "146097 * y - 287811596 \<le> 400 * DayFromYear y"
  "400 * DayFromYear y \<le> 146097 * y - 287810501"
proof -
  define a b c where "a = (y - 1969) div 4" and "b = (y - 1901) div 100"
    and "c = (y - 1601) div 400"
  have d: "400 * DayFromYear y = 146000 * y - 287620000 + 400 * a - 400 * b + 400 * c"
    unfolding DayFromYear_def a_def b_def c_def by simp
  have a: "4 * a \<le> y - 1969" "y - 1969 < 4 * a + 4"
    unfolding a_def using div_bounds [of 4 "y - 1969"] by simp_all
  have b: "100 * b \<le> y - 1901" "y - 1901 < 100 * b + 100"
    unfolding b_def using div_bounds [of 100 "y - 1901"] by simp_all
  have c: "400 * c \<le> y - 1601" "y - 1601 < 400 * c + 400"
    unfolding c_def using div_bounds [of 400 "y - 1601"] by simp_all
  show "146097 * y - 287811596 \<le> 400 * DayFromYear y"
    unfolding d using a b c by linarith
  show "400 * DayFromYear y \<le> 146097 * y - 287810501"
    unfolding d using a b c by linarith
qed

lemma DayFromYear_less_succ: "DayFromYear y < DayFromYear (y + 1)"
  by (simp add: DayFromYear_step)

lemma DayFromYear_mono: "y \<le> y' \<Longrightarrow> DayFromYear y \<le> DayFromYear y'"
proof (induction y' rule: int_ge_induct)
  case base
  show ?case by simp
next
  case (step i)
  from step.IH DayFromYear_less_succ [of i] show ?case by linarith
qed

lemma DayFromYear_strict: "DayFromYear y < DayFromYear y' \<Longrightarrow> y < y'"
  using DayFromYear_mono [of y' y] by (cases "y < y'") simp_all

text \<open>\<open>YearFromDay\<close> finds the year of a day: the one whose first day is not after it and
  whose successor's first day is.\<close>

lemma YearFromDay_unique:
  assumes lo: "DayFromYear y \<le> d" and hi: "d < DayFromYear (y + 1)"
  shows "YearFromDay d = y"
proof -
  define q where "q = (400 * d) div 146097"
  have q: "146097 * q \<le> 400 * d" "400 * d < 146097 * q + 146097"
    unfolding q_def using div_bounds [of 146097 "400 * d"] by simp_all
  have "146097 * y - 287811596 \<le> 400 * d"
    using DayFromYear_bounds(1) [of y] lo by linarith
  with q(2) have low: "y - 1971 \<le> q" by linarith
  have "400 * DayFromYear (y + 1) \<le> 146097 * y - 287664404"
    using DayFromYear_bounds(2) [of "y + 1"] by simp
  with hi have "400 * d < 146097 * y - 287664404" by linarith
  with q(1) have high: "q \<le> y - 1969" by linarith
  define y0 where "y0 = 1970 + q"
  from low high have near: "y0 = y - 1 \<or> y0 = y \<or> y0 = y + 1"
    unfolding y0_def by linarith
  have def: "YearFromDay d =
     (if d < DayFromYear y0 then y0 - 1
      else if DayFromYear (y0 + 1) \<le> d then y0 + 1 else y0)"
    unfolding YearFromDay_def Let_def y0_def q_def by (rule refl)
  from near show ?thesis
  proof (elim disjE)
    assume e: "y0 = y - 1"
    have "DayFromYear (y - 1) \<le> DayFromYear y" by (rule DayFromYear_mono) simp
    with lo have "\<not> d < DayFromYear (y - 1)" by linarith
    with lo show ?thesis unfolding def e by simp
  next
    assume e: "y0 = y"
    from lo hi show ?thesis unfolding def e by simp
  next
    assume e: "y0 = y + 1"
    from hi show ?thesis unfolding def e by simp
  qed
qed

lemma decode_year:
  assumes "0 \<le> w" and "w < (if InLeapYear y then 366 else 365)"
  shows "YearFromDay (DayFromYear y + w) = y" and "DayWithinYear (DayFromYear y + w) = w"
proof -
  show y: "YearFromDay (DayFromYear y + w) = y"
    by (rule YearFromDay_unique) (use assms in \<open>simp_all add: DayFromYear_step\<close>)
  show "DayWithinYear (DayFromYear y + w) = w"
    unfolding DayWithinYear_def y by simp
qed

lemma month_cases:
  fixes m :: int
  assumes "1 \<le> m" and "m \<le> 12"
  shows "m = 1 \<or> m = 2 \<or> m = 3 \<or> m = 4 \<or> m = 5 \<or> m = 6 \<or> m = 7 \<or> m = 8 \<or> m = 9
         \<or> m = 10 \<or> m = 11 \<or> m = 12"
  using assms by arith

lemma MakeDay_in_year:
  assumes "1 \<le> m" and "m \<le> 12"
  shows "MakeDay y (m - 1) d = DayFromYear y + (daysBeforeMonth y (m - 1) + d - 1)"
proof -
  have "0 \<le> m - 1" and "m - 1 < 12" using assms by simp_all
  then have "(m - 1) div 12 = 0" and "(m - 1) mod 12 = m - 1" by simp_all
  then show ?thesis by (simp add: MakeDay_def Let_def)
qed

text \<open>The month and the day of the month of the \<open>w\<close>-th day of a year, for the day \<open>d\<close>
  of the month \<open>m\<close>.\<close>

lemma decode_within_year:
  assumes m: "1 \<le> m" "m \<le> 12" and d: "1 \<le> d" "d \<le> daysInMonth y m"
    and w: "w = daysBeforeMonth y (m - 1) + d - 1"
  shows "0 \<le> w" and "w < (if InLeapYear y then 366 else 365)"
    and "(if w < daysBeforeMonth y 1 then 0 else if w < daysBeforeMonth y 2 then 1
      else if w < daysBeforeMonth y 3 then 2 else if w < daysBeforeMonth y 4 then 3
      else if w < daysBeforeMonth y 5 then 4 else if w < daysBeforeMonth y 6 then 5
      else if w < daysBeforeMonth y 7 then 6 else if w < daysBeforeMonth y 8 then 7
      else if w < daysBeforeMonth y 9 then 8 else if w < daysBeforeMonth y 10 then 9
      else if w < daysBeforeMonth y 11 then 10 else 11) = m - 1"
proof -
  have all: "0 \<le> w \<and> w < (if InLeapYear y then 366 else 365)
    \<and> (if w < daysBeforeMonth y 1 then 0 else if w < daysBeforeMonth y 2 then 1
      else if w < daysBeforeMonth y 3 then 2 else if w < daysBeforeMonth y 4 then 3
      else if w < daysBeforeMonth y 5 then 4 else if w < daysBeforeMonth y 6 then 5
      else if w < daysBeforeMonth y 7 then 6 else if w < daysBeforeMonth y 8 then 7
      else if w < daysBeforeMonth y 9 then 8 else if w < daysBeforeMonth y 10 then 9
      else if w < daysBeforeMonth y 11 then 10 else 11) = m - 1"
  proof (cases "InLeapYear y")
    case True
    from month_cases [OF m] show ?thesis
      by (elim disjE) (use d True in \<open>simp_all add: w daysBeforeMonth_def daysInMonth_def\<close>)
  next
    case False
    from month_cases [OF m] show ?thesis
      by (elim disjE) (use d False in \<open>simp_all add: w daysBeforeMonth_def daysInMonth_def\<close>)
  qed
  from all show "0 \<le> w" and "w < (if InLeapYear y then 366 else 365)"
    and "(if w < daysBeforeMonth y 1 then 0 else if w < daysBeforeMonth y 2 then 1
      else if w < daysBeforeMonth y 3 then 2 else if w < daysBeforeMonth y 4 then 3
      else if w < daysBeforeMonth y 5 then 4 else if w < daysBeforeMonth y 6 then 5
      else if w < daysBeforeMonth y 7 then 6 else if w < daysBeforeMonth y 8 then 7
      else if w < daysBeforeMonth y 9 then 8 else if w < daysBeforeMonth y 10 then 9
      else if w < daysBeforeMonth y 11 then 10 else 11) = m - 1"
    by blast+
qed

lemma decode_valid:
  assumes m: "1 \<le> m" "m \<le> 12" and d: "1 \<le> d" "d \<le> daysInMonth y m"
  shows "YearFromDay (MakeDay y (m - 1) d) = y"
    and "MonthFromDay (MakeDay y (m - 1) d) = m - 1"
    and "DateFromDay (MakeDay y (m - 1) d) = d"
proof -
  define w where "w = daysBeforeMonth y (m - 1) + d - 1"
  have D: "MakeDay y (m - 1) d = DayFromYear y + w"
    unfolding w_def by (rule MakeDay_in_year [OF m])
  note within = decode_within_year [OF m d w_def]
  show Y: "YearFromDay (MakeDay y (m - 1) d) = y"
    unfolding D by (rule decode_year(1) [OF within(1,2)])
  have W: "DayWithinYear (MakeDay y (m - 1) d) = w"
    unfolding D by (rule decode_year(2) [OF within(1,2)])
  show M: "MonthFromDay (MakeDay y (m - 1) d) = m - 1"
    unfolding MonthFromDay_def Y W Let_def by (rule within(3))
  show "DateFromDay (MakeDay y (m - 1) d) = d"
    unfolding DateFromDay_def Y W M w_def by simp
qed

text \<open>A day number that the month does not have rolls over into the next month.\<close>

lemma decode_overflow:
  assumes m: "1 \<le> m" "m \<le> 12" and d: "daysInMonth y m < d" "d \<le> 31"
  shows "MonthFromDay (MakeDay y (m - 1) d) = m"
    and "YearFromDay (MakeDay y (m - 1) d) = y"
proof -
  from d have short: "daysInMonth y m < 31" by linarith
  then have m11: "m \<le> 11"
    using month_cases [OF m] by (auto simp: daysInMonth_def)
  define d' where "d' = d - daysInMonth y m"
  have next_month: "daysBeforeMonth y m = daysBeforeMonth y (m - 1) + daysInMonth y m"
    using month_cases [OF m] m11
    by (elim disjE) (simp_all add: daysBeforeMonth_def daysInMonth_def)
  have d': "1 \<le> d'" "d' \<le> daysInMonth y (m + 1)"
    unfolding d'_def using d month_cases [OF m] m11
    by (auto simp: daysInMonth_def split: if_splits)
  have m': "1 \<le> m + 1" "m + 1 \<le> 12" using m m11 by simp_all
  have "MakeDay y (m - 1) d = DayFromYear y + (daysBeforeMonth y (m - 1) + d - 1)"
    by (rule MakeDay_in_year [OF m])
  also have "\<dots> = DayFromYear y + (daysBeforeMonth y (m + 1 - 1) + d' - 1)"
    unfolding d'_def using next_month by simp
  also have "\<dots> = MakeDay y (m + 1 - 1) d'"
    by (rule MakeDay_in_year [OF m', symmetric])
  finally have same: "MakeDay y (m - 1) d = MakeDay y (m + 1 - 1) d'" .
  have "MonthFromDay (MakeDay y (m + 1 - 1) d') = m + 1 - 1"
    by (rule decode_valid(2) [OF m' d'])
  then show "MonthFromDay (MakeDay y (m - 1) d) = m" unfolding same by simp
  show "YearFromDay (MakeDay y (m - 1) d) = y"
    unfolding same by (rule decode_valid(1) [OF m' d'])
qed

subsection \<open>Digits\<close>

lemma digit_cases:
  "inClass Digit c \<Longrightarrow> c = CHR ''0'' \<or> c = CHR ''1'' \<or> c = CHR ''2'' \<or> c = CHR ''3''
     \<or> c = CHR ''4'' \<or> c = CHR ''5'' \<or> c = CHR ''6'' \<or> c = CHR ''7'' \<or> c = CHR ''8''
     \<or> c = CHR ''9''"
  by simp

lemma digitVal_range: "inClass Digit c \<Longrightarrow> 0 \<le> digitVal c \<and> digitVal c \<le> 9"
  by (drule digit_cases, elim disjE) (simp_all add: digitVal_def)

lemma digitChar_digitVal: "inClass Digit c \<Longrightarrow> digitChar (digitVal c) = c"
  by (drule digit_cases, elim disjE) (simp_all add: digitVal_def digitChar_def)

lemma small_cases:
  fixes n :: int
  assumes "0 \<le> n" and "n \<le> 9"
  shows "n \<in> set [0, 1, 2, 3, 4, 5, 6, 7, 8, 9]"
  using assms by (simp only: list.set insert_iff empty_iff) arith

lemma digitVal_digitChar: "0 \<le> n \<Longrightarrow> n \<le> 9 \<Longrightarrow> digitVal (digitChar n) = n"
  by (drule (1) small_cases, simp only: list.set insert_iff empty_iff, elim disjE FalseE)
    (simp_all add: digitVal_def digitChar_def)

lemma two_digits:
  fixes a b :: int
  assumes "0 \<le> a" "a \<le> 9" "0 \<le> b" "b \<le> 9"
  shows "(10 * a + b) div 10 = a" and "(10 * a + b) mod 10 = b"
proof -
  have e: "10 * a + b = 10 * a + b" by simp
  show "(10 * a + b) div 10 = a"
    by (rule int_div_pos_eq [OF e]) (use assms in simp_all)
  show "(10 * a + b) mod 10 = b"
    by (rule int_mod_pos_eq [OF e]) (use assms in simp_all)
qed

lemma pad2_digits:
  assumes "0 \<le> a" "a \<le> 9" "0 \<le> b" "b \<le> 9"
  shows "pad2 (10 * a + b) = [digitChar a, digitChar b]"
proof -
  have "a mod 10 = a" using assms by simp
  then show ?thesis
    unfolding pad2_def two_digits [OF assms] by simp
qed

lemma pad4_digits:
  assumes a: "0 \<le> a" "a \<le> 9" and b: "0 \<le> b" "b \<le> 9"
    and c: "0 \<le> c" "c \<le> 9" and d: "0 \<le> d" "d \<le> 9"
  shows "pad4 (1000 * a + 100 * b + 10 * c + d) = [digitChar a, digitChar b, digitChar c, digitChar d]"
proof -
  define n where "n = 1000 * a + 100 * b + 10 * c + d"
  have e10: "n = 10 * (100 * a + 10 * b + c) + d" unfolding n_def by simp
  have e100: "n = 100 * (10 * a + b) + (10 * c + d)" unfolding n_def by simp
  have e1000: "n = 1000 * a + (100 * b + 10 * c + d)" unfolding n_def by simp
  have m1: "n mod 10 = d"
    by (rule int_mod_pos_eq [OF e10]) (use d in simp_all)
  have d10: "n div 10 = 100 * a + 10 * b + c"
    by (rule int_div_pos_eq [OF e10]) (use d in simp_all)
  have d100: "n div 100 = 10 * a + b"
    by (rule int_div_pos_eq [OF e100]) (use c d in simp_all)
  have d1000: "n div 1000 = a"
    by (rule int_div_pos_eq [OF e1000]) (use b c d in simp_all)
  have m10: "(100 * a + 10 * b + c) mod 10 = c"
  proof -
    have "100 * a + 10 * b + c = 10 * (10 * a + b) + c" by simp
    then show ?thesis by (rule int_mod_pos_eq) (use c in simp_all)
  qed
  have m100: "(10 * a + b) mod 10 = b" by (rule two_digits(2) [OF a b])
  have m1000: "a mod 10 = a" using a by simp
  show ?thesis
    unfolding n_def [symmetric] pad4_def m1 d10 d100 d1000 m10 m100 m1000 by (rule refl)
qed

lemma pad2_inject:
  assumes "0 \<le> a" "a \<le> 99" "0 \<le> b" "b \<le> 99" and eq: "pad2 a = pad2 b"
  shows "a = b"
proof -
  have ra: "0 \<le> a div 10" "a div 10 \<le> 9" "0 \<le> a mod 10" "a mod 10 \<le> 9"
    using assms(1,2) by simp_all
  have rb: "0 \<le> b div 10" "b div 10 \<le> 9" "0 \<le> b mod 10" "b mod 10 \<le> 9"
    using assms(3,4) by simp_all
  have sa: "a div 10 mod 10 = a div 10" using ra by simp
  have sb: "b div 10 mod 10 = b div 10" using rb by simp
  from eq have "digitChar (a div 10) = digitChar (b div 10)"
    and "digitChar (a mod 10) = digitChar (b mod 10)"
    unfolding pad2_def sa sb by simp_all
  then have "digitVal (digitChar (a div 10)) = digitVal (digitChar (b div 10))"
    and "digitVal (digitChar (a mod 10)) = digitVal (digitChar (b mod 10))"
    by simp_all
  then have "a div 10 = b div 10" and "a mod 10 = b mod 10"
    using ra rb by (simp_all add: digitVal_digitChar)
  then show ?thesis by (metis mult_div_mod_eq)
qed

subsection \<open>Date strings\<close>

lemma matchesFixed_Cons:
  "matchesFixed (p # ps) s \<longleftrightarrow> (\<exists>c cs. s = c # cs \<and> inClass p c \<and> matchesFixed ps cs)"
  by (cases s) simp_all

lemma matchesFixed_Nil: "matchesFixed [] s \<longleftrightarrow> s = []"
  by (cases s) simp_all

lemma dateRegex_shape:
  assumes "matchesFixed dateRegex s"
  shows "\<exists>c0 c1 c2 c3 c5 c6 c8 c9.
           s = [c0, c1, c2, c3, CHR ''-'', c5, c6, CHR ''-'', c8, c9]
           \<and> inClass Digit c0 \<and> inClass Digit c1 \<and> inClass Digit c2 \<and> inClass Digit c3
           \<and> inClass Digit c5 \<and> inClass Digit c6 \<and> inClass Digit c8 \<and> inClass Digit c9"
proof -
  from assms obtain c0 c1 c2 c3 c4 c5 c6 c7 c8 c9 where
    s: "s = [c0, c1, c2, c3, c4, c5, c6, c7, c8, c9]"
    and dg: "inClass Digit c0" "inClass Digit c1" "inClass Digit c2" "inClass Digit c3"
      "inClass Digit c5" "inClass Digit c6" "inClass Digit c8" "inClass Digit c9"
    and sep: "inClass (Lit CHR ''-'') c4" "inClass (Lit CHR ''-'') c7"
    unfolding dateRegex_def matchesFixed_Cons matchesFixed_Nil by blast
  from sep have "c4 = CHR ''-''" and "c7 = CHR ''-''" by simp_all
  with s dg show ?thesis by blast
qed

lemma parseUtcMidnight_fields:
  "parseUtcMidnight s =
     (case dateFields s of (y, m, d) \<Rightarrow>
        if 1 \<le> m \<and> m \<le> 12 \<and> 1 \<le> d \<and> d \<le> 31
        then Some (MakeDate (MakeDay y (m - 1) d) 0) else None)"
  by (simp add: parseUtcMidnight_def dateFields_def Let_def)

lemma Day_MakeDate: "Day (MakeDate D 0) = D"
  by (simp add: Day_def MakeDate_def msPerDay_def)

lemma daysInMonth_le_31: "daysInMonth y m \<le> 31"
  by (simp add: daysInMonth_def)

text \<open>For a string of the date shape, the date validators' three tests (pattern, parse,
  round trip through \<open>toISOString\<close>) together accept exactly the real calendar dates.\<close>

lemma round_trip_iff_real:
  assumes shape: "matchesFixed dateRegex s"
  shows "(\<exists>t. parseUtcMidnight s = Some t \<and> isoDatePart t = s) \<longleftrightarrow> realCalendarDate s"
    and "realCalendarDate s \<Longrightarrow> parseUtcMidnight s = Some (utcMidnightOf s)"
proof -
  from dateRegex_shape [OF shape] obtain c0 c1 c2 c3 c5 c6 c8 c9 where
    s: "s = [c0, c1, c2, c3, CHR ''-'', c5, c6, CHR ''-'', c8, c9]"
    and dg: "inClass Digit c0" "inClass Digit c1" "inClass Digit c2" "inClass Digit c3"
      "inClass Digit c5" "inClass Digit c6" "inClass Digit c8" "inClass Digit c9"
    by blast
  define v0 v1 v2 v3 v5 v6 v8 v9 where "v0 = digitVal c0" and "v1 = digitVal c1"
    and "v2 = digitVal c2" and "v3 = digitVal c3" and "v5 = digitVal c5"
    and "v6 = digitVal c6" and "v8 = digitVal c8" and "v9 = digitVal c9"
  note vdefs = v0_def v1_def v2_def v3_def v5_def v6_def v8_def v9_def
  have r: "0 \<le> v0" "v0 \<le> 9" "0 \<le> v1" "v1 \<le> 9" "0 \<le> v2" "v2 \<le> 9" "0 \<le> v3" "v3 \<le> 9"
    "0 \<le> v5" "v5 \<le> 9" "0 \<le> v6" "v6 \<le> 9" "0 \<le> v8" "v8 \<le> 9" "0 \<le> v9" "v9 \<le> 9"
    unfolding vdefs using dg digitVal_range by blast+
  have chars: "digitChar v0 = c0" "digitChar v1 = c1" "digitChar v2 = c2" "digitChar v3 = c3"
    "digitChar v5 = c5" "digitChar v6 = c6" "digitChar v8 = c8" "digitChar v9 = c9"
    unfolding vdefs using dg digitChar_digitVal by blast+
  define y m d where "y = 1000 * v0 + 100 * v1 + 10 * v2 + v3" and "m = 10 * v5 + v6"
    and "d = 10 * v8 + v9"
  have fields: "dateFields s = (y, m, d)"
    unfolding dateFields_def s y_def m_def d_def vdefs by simp
  have yr: "0 \<le> y" "y \<le> 9999" and mr: "0 \<le> m" "m \<le> 99" and dr: "0 \<le> d" "d \<le> 99"
    unfolding y_def m_def d_def using r by linarith+
  have py: "pad4 y = [c0, c1, c2, c3]"
    unfolding y_def using pad4_digits [of v0 v1 v2 v3] r chars by simp
  have pm: "pad2 m = [c5, c6]"
    unfolding m_def using pad2_digits [of v5 v6] r chars by simp
  have pd: "pad2 d = [c8, c9]"
    unfolding d_def using pad2_digits [of v8 v9] r chars by simp
  have realDate: "realCalendarDate s \<longleftrightarrow> 1 \<le> m \<and> m \<le> 12 \<and> 1 \<le> d \<and> d \<le> daysInMonth y m"
    unfolding realCalendarDate_def fields using shape by simp
  have parse: "parseUtcMidnight s =
      (if 1 \<le> m \<and> m \<le> 12 \<and> 1 \<le> d \<and> d \<le> 31
       then Some (MakeDate (MakeDay y (m - 1) d) 0) else None)"
    unfolding parseUtcMidnight_fields fields by simp
  have iso: "isoDatePart (MakeDate (MakeDay y (m - 1) d) 0) =
       pad4 y @ ''-'' @ pad2 (MonthFromDay (MakeDay y (m - 1) d) + 1) @ ''-''
         @ pad2 (DateFromDay (MakeDay y (m - 1) d))"
    if "YearFromDay (MakeDay y (m - 1) d) = y"
    unfolding isoDatePart_def Day_MakeDate Let_def that using yr by simp
  show "realCalendarDate s \<Longrightarrow> parseUtcMidnight s = Some (utcMidnightOf s)"
    unfolding realDate parse utcMidnightOf_def fields using daysInMonth_le_31 [of y m]
    by (simp add: order_trans)
  show "(\<exists>t. parseUtcMidnight s = Some t \<and> isoDatePart t = s) \<longleftrightarrow> realCalendarDate s"
  proof (cases "1 \<le> m \<and> m \<le> 12 \<and> 1 \<le> d \<and> d \<le> 31")
    case False
    then have "parseUtcMidnight s = None" unfolding parse by simp
    moreover from False have "\<not> realCalendarDate s"
      unfolding realDate using daysInMonth_le_31 [of y m] by linarith
    ultimately show ?thesis by simp
  next
    case True
    then have p: "parseUtcMidnight s = Some (MakeDate (MakeDay y (m - 1) d) 0)"
      unfolding parse by simp
    from True have mm: "1 \<le> m" "m \<le> 12" and dd: "1 \<le> d" "d \<le> 31" by simp_all
    show ?thesis
    proof (cases "d \<le> daysInMonth y m")
      case True
      note dv = decode_valid [OF mm dd(1) True]
      have "isoDatePart (MakeDate (MakeDay y (m - 1) d) 0) = s"
        unfolding iso [OF dv(1)] dv s by (simp add: py pm pd)
      moreover have "realCalendarDate s" unfolding realDate using mm dd True by simp
      ultimately show ?thesis using p by simp
    next
      case False
      then have over: "daysInMonth y m < d" by simp
      note ov = decode_overflow [OF mm over dd(2)]
      have m1: "0 \<le> m + 1" "m + 1 \<le> 99" using mm by simp_all
      have "pad2 (m + 1) \<noteq> pad2 m"
        using pad2_inject [OF m1 mr] by auto
      then have differ: "pad2 (m + 1) \<noteq> [c5, c6]" unfolding pm .
      have "isoDatePart (MakeDate (MakeDay y (m - 1) d) 0) \<noteq> s"
      proof
        assume "isoDatePart (MakeDate (MakeDay y (m - 1) d) 0) = s"
        then have "pad2 (m + 1) = [c5, c6]"
          unfolding iso [OF ov(2)] ov(1) py s by (simp add: pad2_def)
        with differ show False by simp
      qed
      moreover have "\<not> realCalendarDate s" unfolding realDate using False by simp
      ultimately show ?thesis using p by simp
    qed
  qed
qed

lemma trim_Nil: "trim [] = []"
  by (simp add: trim_def)

lemma validateWeekStart_characterisation:
  assumes "trim s \<noteq> []"
  shows "validateWeekStart lz (JStr s) =
     (if realCalendarDate (trim s)
      then if getDay lz (utcMidnightOf (trim s)) = 1 then Ok (utcMidnightOf (trim s))
           else Err msgWeekStartMonday
      else Err msgWeekStartFormat)"
proof -
  from assms have ne: "s \<noteq> []" using trim_Nil by auto
  show ?thesis
  proof (cases "matchesFixed dateRegex (trim s)")
    case False
    then have "\<not> realCalendarDate (trim s)" by (simp add: realCalendarDate_def)
    with False ne assms show ?thesis by (simp add: validateWeekStart_def)
  next
    case True
    note rt = round_trip_iff_real [OF True]
    show ?thesis
    proof (cases "realCalendarDate (trim s)")
      case real: True
      from rt(2) [OF real] have p: "parseUtcMidnight (trim s) = Some (utcMidnightOf (trim s))" .
      from rt(1) real p have "isoDatePart (utcMidnightOf (trim s)) = trim s" by auto
      with True ne assms real p show ?thesis by (simp add: validateWeekStart_def)
    next
      case unreal: False
      with rt(1) have no: "\<And>t. parseUtcMidnight (trim s) = Some t \<Longrightarrow> isoDatePart t \<noteq> trim s"
        by blast
      show ?thesis
      proof (cases "parseUtcMidnight (trim s)")
        case None
        with True ne assms unreal show ?thesis by (simp add: validateWeekStart_def)
      next
        case (Some t)
        with no [OF Some] True ne assms unreal show ?thesis
          by (simp add: validateWeekStart_def)
      qed
    qed
  qed
qed

lemma utcMidnightOf_day: "utcMidnightOf s = (case dateFields s of (y, m, d) \<Rightarrow> MakeDay y (m - 1) d) * msPerDay"
  by (simp add: utcMidnightOf_def MakeDate_def split: prod.splits)

lemma getDay_midnight_east:
  assumes "0 \<le> utcOffset lz (D * msPerDay)" and "utcOffset lz (D * msPerDay) < msPerDay"
  shows "getDay lz (D * msPerDay) = WeekDay (D * msPerDay)"
proof -
  define off where "off = utcOffset lz (D * msPerDay)"
  have e: "D * msPerDay + off = msPerDay * D + off" by simp
  have "(D * msPerDay + off) div msPerDay = D"
    by (rule int_div_pos_eq [OF e]) (use assms in \<open>simp_all add: off_def\<close>)
  moreover have "(D * msPerDay) div msPerDay = D" by (simp add: msPerDay_def)
  ultimately show ?thesis
    by (simp add: getDay_def WeekDay_def LocalTime_def Day_def off_def)
qed

lemma getDay_midnight_west:
  assumes "- msPerDay \<le> utcOffset lz (D * msPerDay)" and "utcOffset lz (D * msPerDay) < 0"
  shows "getDay lz (D * msPerDay) = 1 \<longleftrightarrow> WeekDay (D * msPerDay) = 2"
proof -
  define off where "off = utcOffset lz (D * msPerDay)"
  have e: "D * msPerDay + off = msPerDay * (D - 1) + (off + msPerDay)"
    by (simp add: algebra_simps)
  have "(D * msPerDay + off) div msPerDay = D - 1"
    by (rule int_div_pos_eq [OF e]) (use assms in \<open>simp_all add: off_def\<close>)
  moreover have "(D * msPerDay) div msPerDay = D" by (simp add: msPerDay_def)
  moreover have "(D - 1 + 4) mod 7 = 1 \<longleftrightarrow> (D + 4) mod 7 = 2" by presburger
  ultimately show ?thesis
    by (simp add: getDay_def WeekDay_def LocalTime_def Day_def off_def)
qed

text \<open>In a process whose local time is UTC or ahead of it by less than a day,
  \<open>validateWeekStart\<close> does what C1 says: for a string that is not blank after trimming,
  a real calendar date of the form \<open>YYYY-MM-DD\<close> that falls on a Monday gives its
  UTC-midnight instant, a real calendar date on another weekday gives the Monday message,
  and every other string (wrong form or impossible date) gives the format message.\<close>

theorem validateWeekStart_utc_or_east:
  assumes "\<forall>t. 0 \<le> utcOffset lz t \<and> utcOffset lz t < msPerDay" and "trim s \<noteq> []"
  shows "validateWeekStart lz (JStr s) =
     (if realCalendarDate (trim s)
      then if WeekDay (utcMidnightOf (trim s)) = 1 then Ok (utcMidnightOf (trim s))
           else Err ''Week start must be a Monday''
      else Err ''Week start must be in YYYY-MM-DD format'')"
proof -
  have "getDay lz (utcMidnightOf (trim s)) = WeekDay (utcMidnightOf (trim s))"
    unfolding utcMidnightOf_day using assms(1) by (intro getDay_midnight_east) simp_all
  then show ?thesis
    unfolding validateWeekStart_characterisation [OF assms(2)]
    by (simp add: msgWeekStartMonday_def msgWeekStartFormat_def)
qed

theorem validateWeekStart_utc_or_east_witness:
  "validateWeekStart (fixedZone 0) (JStr ''  2025-01-06  '') = Ok 1736121600000
   \<and> validateWeekStart (fixedZone 0) (JStr ''2025-01-07'') = Err ''Week start must be a Monday''
   \<and> validateWeekStart (fixedZone 0) (JStr ''2025-02-30'')
        = Err ''Week start must be in YYYY-MM-DD format''
   \<and> validateWeekStart (fixedZone 0) (JStr ''2025-13-01'')
        = Err ''Week start must be in YYYY-MM-DD format''
   \<and> validateWeekStart (fixedZone 0) (JStr ''06/01/2025'')
        = Err ''Week start must be in YYYY-MM-DD format''"
proof -
  have z: "\<forall>t. 0 \<le> utcOffset (fixedZone 0) t \<and> utcOffset (fixedZone 0) t < msPerDay"
    by (simp add: fixedZone_def msPerDay_def)
  have t1: "trim ''  2025-01-06  '' = ''2025-01-06''" and t2: "trim ''2025-01-07'' = ''2025-01-07''"
    and t3: "trim ''2025-02-30'' = ''2025-02-30''" and t4: "trim ''2025-13-01'' = ''2025-13-01''"
    and t5: "trim ''06/01/2025'' = ''06/01/2025''"
    by code_simp+
  have r1: "realCalendarDate ''2025-01-06''" and r2: "realCalendarDate ''2025-01-07''"
    and r3: "\<not> realCalendarDate ''2025-02-30''" and r4: "\<not> realCalendarDate ''2025-13-01''"
    and r5: "\<not> realCalendarDate ''06/01/2025''"
    by code_simp+
  have u1: "utcMidnightOf ''2025-01-06'' = 1736121600000"
    and u2: "utcMidnightOf ''2025-01-07'' = 1736208000000"
    by code_simp+
  have w1: "WeekDay 1736121600000 = 1" and w2: "WeekDay 1736208000000 \<noteq> 1"
    by code_simp+
  note X = validateWeekStart_utc_or_east [OF z]
  have "validateWeekStart (fixedZone 0) (JStr ''  2025-01-06  '') = Ok 1736121600000"
    using X [of "''  2025-01-06  ''"] by (simp add: t1 r1 u1 w1)
  moreover have "validateWeekStart (fixedZone 0) (JStr ''2025-01-07'')
      = Err ''Week start must be a Monday''"
    using X [of "''2025-01-07''"] w2 by (simp add: t2 r2 u2)
  moreover have "validateWeekStart (fixedZone 0) (JStr ''2025-02-30'')
        = Err ''Week start must be in YYYY-MM-DD format''"
    using X [of "''2025-02-30''"] by (simp add: t3 r3)
  moreover have "validateWeekStart (fixedZone 0) (JStr ''2025-13-01'')
        = Err ''Week start must be in YYYY-MM-DD format''"
    using X [of "''2025-13-01''"] by (simp add: t4 r4)
  moreover have "validateWeekStart (fixedZone 0) (JStr ''06/01/2025'')
        = Err ''Week start must be in YYYY-MM-DD format''"
    using X [of "''06/01/2025''"] by (simp add: t5 r5)
  ultimately show ?thesis by (intro conjI)
qed

text \<open>In a process whose local time is behind UTC by at most a day, the format and
  impossible-date results are the same, but the weekday that \<open>validateWeekStart\<close> accepts
  is Tuesday: a real calendar date is accepted exactly when it falls on a Tuesday, and
  every other real date, the Mondays included, gets the Monday message.\<close>

theorem validateWeekStart_west:
  assumes "\<forall>t. - msPerDay \<le> utcOffset lz t \<and> utcOffset lz t < 0" and "trim s \<noteq> []"
  shows "validateWeekStart lz (JStr s) =
     (if realCalendarDate (trim s)
      then if WeekDay (utcMidnightOf (trim s)) = 2 then Ok (utcMidnightOf (trim s))
           else Err ''Week start must be a Monday''
      else Err ''Week start must be in YYYY-MM-DD format'')"
proof -
  have "getDay lz (utcMidnightOf (trim s)) = 1 \<longleftrightarrow> WeekDay (utcMidnightOf (trim s)) = 2"
    unfolding utcMidnightOf_day using assms(1) by (intro getDay_midnight_west) simp_all
  then show ?thesis
    unfolding validateWeekStart_characterisation [OF assms(2)]
    by (simp add: msgWeekStartMonday_def msgWeekStartFormat_def)
qed

theorem validateWeekStart_west_witness:
  "validateWeekStart (fixedZone (- 25200000)) (JStr ''2025-01-06'')
     = Err ''Week start must be a Monday''
   \<and> validateWeekStart (fixedZone (- 25200000)) (JStr ''2025-01-07'') = Ok 1736208000000"
proof -
  have z: "\<forall>t. - msPerDay \<le> utcOffset (fixedZone (- 25200000)) t
             \<and> utcOffset (fixedZone (- 25200000)) t < 0"
    by (simp add: fixedZone_def msPerDay_def)
  have t1: "trim ''2025-01-06'' = ''2025-01-06''" and t2: "trim ''2025-01-07'' = ''2025-01-07''"
    by code_simp+
  have r1: "realCalendarDate ''2025-01-06''" and r2: "realCalendarDate ''2025-01-07''"
    by code_simp+
  have u1: "utcMidnightOf ''2025-01-06'' = 1736121600000"
    and u2: "utcMidnightOf ''2025-01-07'' = 1736208000000"
    by code_simp+
  have w1: "WeekDay 1736121600000 \<noteq> 2" and w2: "WeekDay 1736208000000 = 2"
    by code_simp+
  note X = validateWeekStart_west [OF z]
  have "validateWeekStart (fixedZone (- 25200000)) (JStr ''2025-01-06'')
     = Err ''Week start must be a Monday''"
    using X [of "''2025-01-06''"] w1 by (simp add: t1 r1 u1)
  moreover have "validateWeekStart (fixedZone (- 25200000)) (JStr ''2025-01-07'')
     = Ok 1736208000000"
    using X [of "''2025-01-07''"] by (simp add: t2 r2 u2 w2)
  ultimately show ?thesis by (intro conjI)
qed

section \<open>Week start in zones of fixed offset\<close>

lemma MonthFromDay_range: "0 \<le> MonthFromDay D \<and> MonthFromDay D \<le> 11"
  by (simp add: MonthFromDay_def Let_def)

lemma MakeDay_decode:
  "MakeDay (YearFromDay D) (MonthFromDay D) (DateFromDay D + j) = D + j"
proof -
  have "MonthFromDay D div 12 = 0" and "MonthFromDay D mod 12 = MonthFromDay D"
    using MonthFromDay_range [of D] by simp_all
  then show ?thesis
    by (simp add: MakeDay_def Let_def DateFromDay_def DayWithinYear_def)
qed

lemma Day_midnight: "Day (D * msPerDay) = D" "TimeWithinDay (D * msPerDay) = 0"
  by (simp_all add: Day_def TimeWithinDay_def msPerDay_def)

lemma monday_offset:
  fixes D :: int
  shows "(if (D + 4) mod 7 = 0 then 6 else (D + 4) mod 7 - 1) = (D + 3) mod 7"
  by presburger

text \<open>A day on or after 1 January of the year 1 has a year of at least 1, which the
  formatter prints as it is.\<close>

lemma YearFromDay_common_era:
  assumes "DayFromYear 1 \<le> d"
  shows "1 \<le> YearFromDay d"
proof -
  define q where "q = (400 * d) div 146097"
  have q: "400 * d < 146097 * q + 146097"
    unfolding q_def using div_bounds(2) [of 146097 "400 * d"] by simp
  have "DayFromYear 1 = - 719162" by (simp add: DayFromYear_def)
  with assms have "- 287664800 \<le> 400 * d" by simp
  with q have "- 1970 \<le> q" by linarith
  define y0 where "y0 = 1970 + q"
  from \<open>- 1970 \<le> q\<close> have y0: "0 \<le> y0" unfolding y0_def by simp
  have def: "YearFromDay d =
     (if d < DayFromYear y0 then y0 - 1
      else if DayFromYear (y0 + 1) \<le> d then y0 + 1 else y0)"
    unfolding YearFromDay_def Let_def y0_def q_def by (rule refl)
  from y0 consider (zero) "y0 = 0" | (one) "y0 = 1" | (more) "2 \<le> y0" by linarith
  then show ?thesis
  proof cases
    case zero
    have "DayFromYear 0 \<le> DayFromYear 1" by (rule DayFromYear_mono) simp
    with assms have "\<not> d < DayFromYear 0" by linarith
    with assms show ?thesis unfolding def zero by simp
  next
    case one
    from assms have "\<not> d < DayFromYear 1" by linarith
    then show ?thesis unfolding def one by simp
  next
    case more
    then show ?thesis unfolding def by simp
  qed
qed

lemma monday_on_or_before:
  fixes a l :: int
  assumes "(a + 3) mod 7 = 0" and "a \<le> l"
  shows "a \<le> l - (l + 3) mod 7"
  using assms by presburger

text \<open>The result in closed form, for an instant whose date in the target zone is in the
  year 1 or later: the process-zone midnight of the Monday on or before the calendar day
  that the instant has in the target zone.\<close>

lemma weekStartFor_fixed:
  assumes ce: "DayFromYear 1 \<le> Day (date + offT)"
  shows "weekStartFor (fixedZone offL) now date (fixedZone offT) =
     (Day (date + offT) - (Day (date + offT) + 3) mod 7) * msPerDay - offL"
proof -
  define ld where "ld = Day (date + offT)"
  define k where "k = (ld + 3) mod 7"
  have ey: "eraYear (YearFromDay ld) = YearFromDay ld"
    using YearFromDay_common_era [OF ce] unfolding ld_def eraYear_def by simp
  have lt: "LocalTime (fixedZone offT) date = date + offT"
    by (simp add: LocalTime_def fixedZone_def)
  have enc: "MakeDay (YearFromDay ld) (MonthFromDay ld + 1 - 1) (DateFromDay ld) = ld"
    using MakeDay_decode [of ld 0] by simp
  have tzDate: "setHoursZero (fixedZone offL)
       (setFullYear (fixedZone offL) now (YearFromDay ld) (MonthFromDay ld + 1 - 1)
          (DateFromDay ld)) = ld * msPerDay - offL"
    unfolding setHoursZero_setFullYear enc by (rule refl)
  have local: "LocalTime (fixedZone offL) (D * msPerDay - offL) = D * msPerDay" for D
    by (simp add: LocalTime_def fixedZone_def)
  have dow: "getDay (fixedZone offL) (ld * msPerDay - offL) = (ld + 4) mod 7"
    unfolding getDay_def local WeekDay_def Day_midnight by (rule refl)
  have gd: "getDate (fixedZone offL) (ld * msPerDay - offL) = DateFromDay ld"
    unfolding getDate_def local Day_midnight by (rule refl)
  have sd: "setDate (fixedZone offL) (ld * msPerDay - offL) (DateFromDay ld - k)
              = (ld - k) * msPerDay - offL"
    unfolding setDate_def local Let_def Day_midnight
    using MakeDay_decode [of ld "- k"]
    by (simp add: UTC_def fixedZone_def MakeDate_def)
  have sh: "setHoursZero (fixedZone offL) ((ld - k) * msPerDay - offL)
              = (ld - k) * msPerDay - offL"
    unfolding setHoursZero_def local Day_midnight
    by (simp add: UTC_def fixedZone_def MakeDate_def)
  show ?thesis
    unfolding weekStartFor_def Let_def lt ld_def [symmetric] ey tzDate dow gd monday_offset
      k_def [symmetric] sd sh
    by (rule refl)
qed

lemma msPerDay_pos: "0 < msPerDay"
  by (simp add: msPerDay_def)

lemma Day_between:
  assumes lo: "D * msPerDay \<le> t" and hi: "t < (D + n) * msPerDay"
  shows "D \<le> Day t" and "Day t < D + n"
proof -
  note b = div_bounds [OF msPerDay_pos, of t, folded Day_def]
  from lo b(2) have "msPerDay * D < msPerDay * (Day t + 1)"
    by (simp add: algebra_simps)
  then have "D < Day t + 1"
    using msPerDay_pos by (simp only: mult_less_cancel_left_pos)
  then show "D \<le> Day t" by simp
  from hi b(1) have "msPerDay * Day t < msPerDay * (D + n)"
    by (simp add: algebra_simps)
  then show "Day t < D + n"
    using msPerDay_pos by (simp only: mult_less_cancel_left_pos)
qed

lemma monday_of_week:
  fixes M l :: int
  assumes "(M + 3) mod 7 = 0" and "M \<le> l" and "l < M + 7"
  shows "l - (l + 3) mod 7 = M"
  using assms by presburger

lemma monday_facts:
  fixes l :: int
  shows "(l - (l + 3) mod 7 + 3) mod 7 = 0" and "(l - (l + 3) mod 7 + 4) mod 7 = 1"
    and "l - (l + 3) mod 7 \<le> l" and "l < l - (l + 3) mod 7 + 7"
  by presburger+

text \<open>When the process runs in the target zone and that zone has a fixed offset, then
  for an instant whose local date is in the year 1 or later \<open>weekStartFor\<close> returns a
  local midnight that falls on a Monday, at most six days before the instant; every
  instant from the result up to seven days later has the same week start, the result
  itself included, so the function is idempotent there.\<close>

theorem weekStartFor_same_zone:
  assumes ce: "DayFromYear 1 \<le> Day (d + off)"
  shows "let z = fixedZone off; w = weekStartFor z now d z in
     getDay z w = 1 \<and> TimeWithinDay (LocalTime z w) = 0
     \<and> w \<le> d \<and> d < w + 7 * msPerDay
     \<and> weekStartFor z now w z = w
     \<and> (\<forall>d'. w \<le> d' \<and> d' < w + 7 * msPerDay \<longrightarrow> weekStartFor z now d' z = w)"
proof -
  define l where "l = Day (d + off)"
  define M where "M = l - (l + 3) mod 7"
  define w where "w = M * msPerDay - off"
  have wf: "weekStartFor (fixedZone off) now d (fixedZone off) = w"
    unfolding w_def M_def l_def by (rule weekStartFor_fixed [OF ce])
  have "(DayFromYear 1 + 3) mod 7 = 0" by (simp add: DayFromYear_def)
  from monday_on_or_before [OF this ce] have ceM: "DayFromYear 1 \<le> M"
    unfolding M_def l_def .
  have local: "LocalTime (fixedZone off) w = M * msPerDay"
    by (simp add: LocalTime_def fixedZone_def w_def)
  note mf = monday_facts [of l, folded M_def]
  have day: "getDay (fixedZone off) w = 1"
    unfolding getDay_def local WeekDay_def Day_midnight by (rule mf(2))
  have midnight: "TimeWithinDay (LocalTime (fixedZone off) w) = 0"
    unfolding local by (rule Day_midnight(2))
  note b = div_bounds [OF msPerDay_pos, of "d + off", folded Day_def, folded l_def]
  have "msPerDay * M \<le> msPerDay * l"
    using mf(3) msPerDay_pos by (simp only: mult_le_cancel_left_pos)
  with b(1) have lower: "w \<le> d" unfolding w_def by (simp add: algebra_simps)
  have "l + 1 \<le> M + 7" using mf(4) by simp
  then have "msPerDay * (l + 1) \<le> msPerDay * (M + 7)"
    using msPerDay_pos by (simp only: mult_le_cancel_left_pos)
  with b(2) have upper: "d < w + 7 * msPerDay" unfolding w_def by (simp add: algebra_simps)
  have same: "weekStartFor (fixedZone off) now d' (fixedZone off) = w"
    if "w \<le> d'" and "d' < w + 7 * msPerDay" for d'
  proof -
    from that have "M * msPerDay \<le> d' + off" and "d' + off < (M + 7) * msPerDay"
      unfolding w_def by (simp_all add: algebra_simps)
    note r = Day_between [OF this]
    from r have eq: "Day (d' + off) - (Day (d' + off) + 3) mod 7 = M"
      using monday_of_week [OF mf(1)] by simp
    from r(1) ceM have "DayFromYear 1 \<le> Day (d' + off)" by linarith
    from weekStartFor_fixed [OF this] eq show ?thesis unfolding w_def by simp
  qed
  from lower upper have idem: "weekStartFor (fixedZone off) now w (fixedZone off) = w"
    by (intro same) simp_all
  show ?thesis
    unfolding Let_def wf using day midnight lower upper idem same by blast
qed

text \<open>In a process and target zone seven hours behind UTC: Wednesday 2025-01-08 at noon
  UTC, the following Sunday afternoon and the week start itself all give Monday
  2025-01-06 at 07:00 UTC, the local midnight.\<close>

theorem weekStartFor_same_zone_witness:
  "weekStartFor (fixedZone (- 25200000)) 0 1736337600000 (fixedZone (- 25200000)) = 1736146800000
   \<and> weekStartFor (fixedZone (- 25200000)) 0 1736700000000 (fixedZone (- 25200000)) = 1736146800000
   \<and> weekStartFor (fixedZone (- 25200000)) 0 1736146800000 (fixedZone (- 25200000)) = 1736146800000
   \<and> getDay (fixedZone (- 25200000)) 1736146800000 = 1"
proof -
  have w: "weekStartFor (fixedZone (- 25200000)) 0 1736337600000 (fixedZone (- 25200000))
             = 1736146800000"
    by code_simp
  have "DayFromYear 1 \<le> Day (1736337600000 + - 25200000)"
    by (simp add: DayFromYear_def Day_def msPerDay_def)
  note t = weekStartFor_same_zone [OF this, of 0, unfolded Let_def w]
  have r: "(1736146800000::int) \<le> 1736700000000
           \<and> (1736700000000::int) < 1736146800000 + 7 * msPerDay"
    by (simp add: msPerDay_def)
  from t have "getDay (fixedZone (- 25200000)) 1736146800000 = 1"
    and "weekStartFor (fixedZone (- 25200000)) 0 1736146800000 (fixedZone (- 25200000))
           = 1736146800000"
    and "\<forall>d'. 1736146800000 \<le> d' \<and> d' < 1736146800000 + 7 * msPerDay \<longrightarrow>
           weekStartFor (fixedZone (- 25200000)) 0 d' (fixedZone (- 25200000)) = 1736146800000"
    by blast+
  with w r show ?thesis by blast
qed

end
